theory Spec2Isabelle
  imports Main "HOL-Library.Multiset"
begin

section \<open>JavaScript values\<close>

text \<open>
  The values that travel through \<^verbatim>\<open>packages/cli/lib/Creator.js\<close>: presets, plugin
  options and prompt answers are JSON-like data. An object is the list of its own
  enumerable properties in insertion order (keys distinct); the functions that plain
  objects inherit from \<^verbatim>\<open>Object.prototype\<close> are \<open>JBuiltin\<close> values. Numbers are
  the integers of JSON.
\<close>

datatype jsval =
    JUndefined
  | JNull
  | JBool bool
  | JNum int
  | JStr string
  | JArr "jsval list"
  | JObj "(string \<times> jsval) list"
  | JBuiltin string

datatype error =
    TypeError
  | InvalidPreset
  | FetchError nat
  | ExecError nat
  | FsError nat
  | InstallError nat
  | HookError nat

text \<open>Truthiness, as \<^verbatim>\<open>!x\<close>, \<^verbatim>\<open>x || y\<close> and \<^verbatim>\<open>if (x)\<close> read it.\<close>

fun truthy :: "jsval \<Rightarrow> bool" where
  "truthy JUndefined = False"
| "truthy JNull = False"
| "truthy (JBool b) = b"
| "truthy (JNum n) = (n \<noteq> 0)"
| "truthy (JStr s) = (s \<noteq> [])"
| "truthy (JArr xs) = True"
| "truthy (JObj m) = True"
| "truthy (JBuiltin f) = True"

subsection \<open>Decimal numerals and array indices\<close>

definition digit_char :: "nat \<Rightarrow> char" where
  "digit_char d = char_of (48 + d)"

function show_nat :: "nat \<Rightarrow> string" where
  "show_nat n = (if n < 10 then [digit_char n] else show_nat (n div 10) @ [digit_char (n mod 10)])"
  by pat_completeness auto
termination
  by (relation "measure (\<lambda>n. n)") auto

definition is_digit :: "char \<Rightarrow> bool" where
  "is_digit c = (48 \<le> (of_char c :: nat) \<and> (of_char c :: nat) \<le> 57)"

definition nat_of_digits :: "string \<Rightarrow> nat" where
  "nat_of_digits s = foldl (\<lambda>a c. 10 * a + ((of_char c :: nat) - 48)) 0 s"

text \<open>
  An array index is the canonical decimal string of an integer from 0 to \<open>2^32 - 2\<close>:
  the property keys that \<^verbatim>\<open>Object.keys\<close> lists first, in ascending numeric order.
\<close>

definition is_array_index :: "string \<Rightarrow> bool" where
  "is_array_index s =
     (s \<noteq> [] \<and> list_all is_digit s \<and> (s = ''0'' \<or> hd s \<noteq> CHR ''0'')
      \<and> nat_of_digits s < 4294967295)"

subsection \<open>Own properties, \<^verbatim>\<open>Object.keys\<close>, property reads, \<^verbatim>\<open>in\<close>\<close>

text \<open>The own enumerable properties of a value, in creation order.\<close>

fun own_props :: "jsval \<Rightarrow> (string \<times> jsval) list" where
  "own_props (JObj m) = m"
| "own_props (JArr xs) = zip (map show_nat [0..<length xs]) xs"
| "own_props (JStr s) = zip (map show_nat [0..<length s]) (map (\<lambda>c. JStr [c]) s)"
| "own_props v = []"

text \<open>
  The order of \<^verbatim>\<open>Object.keys\<close> (OrdinaryOwnPropertyKeys): array indices ascending,
  then the other string keys in insertion order.
\<close>

definition ordinary_keys :: "string list \<Rightarrow> string list" where
  "ordinary_keys ks =
     sort_key nat_of_digits (filter is_array_index ks) @ filter (\<lambda>k. \<not> is_array_index k) ks"

text \<open>\<^verbatim>\<open>Object.keys(v)\<close> throws a TypeError on \<^verbatim>\<open>undefined\<close> and \<^verbatim>\<open>null\<close>.\<close>

fun Object_keys :: "jsval \<Rightarrow> error + string list" where
  "Object_keys JUndefined = Inl TypeError"
| "Object_keys JNull = Inl TypeError"
| "Object_keys v = Inr (ordinary_keys (map fst (own_props v)))"

text \<open>The names every plain object inherits from \<^verbatim>\<open>Object.prototype\<close>.\<close>

definition object_prototype_names :: "string list" where
  "object_prototype_names =
     [''constructor'', ''__defineGetter__'', ''__defineSetter__'', ''hasOwnProperty'',
      ''__lookupGetter__'', ''__lookupSetter__'', ''isPrototypeOf'',
      ''propertyIsEnumerable'', ''toString'', ''valueOf'', ''__proto__'',
      ''toLocaleString'']"

text \<open>
  \<^verbatim>\<open>v[k]\<close> and \<^verbatim>\<open>v.k\<close>: a TypeError on \<^verbatim>\<open>undefined\<close> and \<^verbatim>\<open>null\<close>; otherwise the
  own property, else the one inherited from \<^verbatim>\<open>Object.prototype\<close>, else
  \<^verbatim>\<open>undefined\<close>. The members that only strings, arrays, numbers and booleans have
  (\<^verbatim>\<open>length\<close>, \<^verbatim>\<open>includes\<close>, ...) are left out: the source reads from such values
  only \<^verbatim>\<open>plugins\<close>, \<^verbatim>\<open>prompts\<close>, \<^verbatim>\<open>_isPreset\<close> and keys that \<^verbatim>\<open>Object.keys\<close> returned.
\<close>

definition lookup_prop :: "jsval \<Rightarrow> string \<Rightarrow> jsval" where
  "lookup_prop v k =
     (case map_of (own_props v) k of
        Some x \<Rightarrow> x
      | None \<Rightarrow> if k \<in> set object_prototype_names then JBuiltin k else JUndefined)"

fun getprop :: "jsval \<Rightarrow> string \<Rightarrow> error + jsval" where
  "getprop JUndefined k = Inl TypeError"
| "getprop JNull k = Inl TypeError"
| "getprop v k = Inr (lookup_prop v k)"

text \<open>\<^verbatim>\<open>k in o\<close> for an object \<open>o\<close> with own properties \<open>m\<close>: own or inherited.\<close>

definition js_in :: "string \<Rightarrow> (string \<times> jsval) list \<Rightarrow> bool" where
  "js_in k m = (k \<in> set (map fst m) \<or> k \<in> set object_prototype_names)"

section \<open>Effects: traces and exceptions\<close>

datatype jsfun = JsFun nat

datatype message =
    MsgCreating string
  | MsgInitGit
  | MsgInitPlugins
  | MsgBlank
  | MsgGenerating
  | MsgInstalling
  | MsgHooks
  | MsgReadme
  | MsgSuccess string
  | MsgCommitSkipped
  | MsgPluginHeader string
  | MsgFetching string
  | MsgFetchFailed string

record pkg =
  pkg_name :: string
  pkg_version :: string
  pkg_private :: bool
  pkg_devDependencies :: "(string \<times> string) list"

datatype content = Json pkg | Readme pkg jsval

datatype event =
    ClearConsole
  | ConsoleLog
  | LogWithSpinner message
  | StopSpinner
  | Log message
  | Warn message
  | ErrorLog message
  | Emit string string
  | WriteFileTree string "(string \<times> content) list"
  | Execa string "string list" string
  | PmInstall string jsval
  | HookStart nat
  | HookEnd nat
  | Interview
  | PluginPrompt jsfun
  | LoadRemotePreset string jsval
  | ValidatePreset jsval
  | PrintExitLogs

text \<open>
  An asynchronous computation, awaited: the events it caused, in order, and either the
  exception it threw (\<open>Inl\<close>) or its value.
\<close>

type_synonym 'a io = "event list \<times> (error + 'a)"

definition return_io :: "'a \<Rightarrow> 'a io" where
  "return_io a = ([], Inr a)"

definition throw_io :: "error \<Rightarrow> 'a io" where
  "throw_io e = ([], Inl e)"

definition emit :: "event \<Rightarrow> unit io" where
  "emit ev = ([ev], Inr ())"

definition lift_io :: "error + 'a \<Rightarrow> 'a io" where
  "lift_io r = ([], r)"

definition bind_io :: "'a io \<Rightarrow> ('a \<Rightarrow> 'b io) \<Rightarrow> 'b io" where
  "bind_io m f =
     (case m of
        (t, Inl e) \<Rightarrow> (t, Inl e)
      | (t, Inr a) \<Rightarrow> (case f a of (t', r) \<Rightarrow> (t @ t', r)))"

definition then_io :: "unit io \<Rightarrow> 'b io \<Rightarrow> 'b io" where
  "then_io m k = bind_io m (\<lambda>_. k)"

text \<open>\<^verbatim>\<open>try { m } catch (e) { h(e) }\<close>.\<close>

definition catch_io :: "'a io \<Rightarrow> (error \<Rightarrow> 'a io) \<Rightarrow> 'a io" where
  "catch_io m h =
     (case m of
        (t, Inl e) \<Rightarrow> (case h e of (t', r) \<Rightarrow> (t @ t', r))
      | (t, Inr a) \<Rightarrow> (t, Inr a))"

text \<open>An external call: its event, then its failure if it has one.\<close>

definition call_io :: "event \<Rightarrow> error option \<Rightarrow> unit io" where
  "call_io ev r = ([ev], case r of None \<Rightarrow> Inr () | Some e \<Rightarrow> Inl e)"

section \<open>The collaborators of the Creator\<close>

record plugin =
  plugin_id :: string
  plugin_apply :: "jsfun option"
  plugin_options :: jsval

text \<open>
  A hook: its identity and whether awaiting it throws. \<open>plugin_apply = None\<close> above is
  the no-op \<^verbatim>\<open>() => {}\<close>.
\<close>

datatype callback = Callback (cb_id: nat) (cb_error: "error option")

record generator =
  gen_pkg :: pkg
  gen_afterInvoke :: "callback list"
  gen_afterAnyInvoke :: "callback list"

text \<open>
  Modelled from the spec: the modules \<^verbatim>\<open>./options\<close> (\<^verbatim>\<open>loadOptions\<close>,
  \<^verbatim>\<open>defaults\<close>), \<^verbatim>\<open>@pkb/shared-utils\<close> (\<^verbatim>\<open>hasGit\<close>, \<^verbatim>\<open>hasYarn\<close>,
  \<^verbatim>\<open>hasPnpm3OrLater\<close>, \<^verbatim>\<open>loadModule\<close>, \<^verbatim>\<open>execa\<close>), \<^verbatim>\<open>./Generator\<close>,
  \<^verbatim>\<open>./util/ProjectPackageManager\<close>, \<^verbatim>\<open>./util/writeFileTree\<close>,
  \<^verbatim>\<open>./util/loadRemotePreset\<close> and \<^verbatim>\<open>inquirer\<close> are not part of the source at hand.
  They are parameters: the persisted configuration is
  \<open>{ packageManager?: string, presets?: mapping }\<close>, the environment signals are
  read-only booleans, \<^verbatim>\<open>loadModule\<close> returns the module or nothing (\<open>None\<close>: it
  could not be loaded, or what it exports is falsy), a process, a file write, an
  install or a remote fetch either succeeds or throws, a prompt returns an answers
  object, and the generator may append hooks to the two callback lists.
\<close>

record env =
  hasGit :: bool
  hasYarn :: bool
  hasPnpm3OrLater :: bool
  isTestOrDebug :: bool
  saved_packageManager :: jsval
  saved_presets :: "(string \<times> jsval) list option"
  defaults_presets :: "(string \<times> jsval) list"
  loadModule :: "string \<Rightarrow> string \<Rightarrow> jsfun option"
  inquirer_prompt :: "jsfun \<Rightarrow> (string \<times> jsval) list"
  interview_preset :: string
  loadRemotePreset :: "string \<Rightarrow> jsval \<Rightarrow> error + jsval"
  execa :: "string \<Rightarrow> string list \<Rightarrow> string \<Rightarrow> error option"
  writeFileTree :: "string \<Rightarrow> (string \<times> content) list \<Rightarrow> error option"
  pm_install :: "string \<Rightarrow> jsval \<Rightarrow> error option"
  new_Generator :: "string \<Rightarrow> pkg \<Rightarrow> plugin list \<Rightarrow> generator"

record creator =
  cr_name :: string
  cr_context :: string
  afterInvokeCbs :: "callback list"
  afterAnyInvokeCbs :: "callback list"

section \<open>The Creator\<close>

subsection \<open>\<^verbatim>\<open>run\<close> (lines 161-164)\<close>

definition is_space :: "char \<Rightarrow> bool" where
  "is_space c = ((of_char c :: nat) \<in> {9, 10, 11, 12, 13, 32})"

text \<open>\<^verbatim>\<open>s.split(/\s+/)\<close>: the pieces between maximal runs of white space.\<close>

function split_ws :: "string \<Rightarrow> string list" where
  "split_ws [] = [[]]"
| "split_ws (c # cs) =
     (if is_space c then [] # split_ws (dropWhile is_space cs)
      else (case split_ws cs of t # ts \<Rightarrow> (c # t) # ts | [] \<Rightarrow> [[c]]))"
  by pat_completeness auto
termination
  by (relation "measure length") (auto simp: length_dropWhile_le le_imp_less_Suc)

definition run :: "env \<Rightarrow> creator \<Rightarrow> string \<Rightarrow> string list option \<Rightarrow> unit io" where
  "run env this command args =
     (case args of
        Some as \<Rightarrow> call_io (Execa command as (cr_context this)) (execa env command as (cr_context this))
      | None \<Rightarrow>
          (case split_ws command of
             cmd # as \<Rightarrow> call_io (Execa cmd as (cr_context this)) (execa env cmd as (cr_context this))
           | [] \<Rightarrow> throw_io TypeError))"

subsection \<open>\<^verbatim>\<open>resolvePlugins\<close> (lines 214-230)\<close>

text \<open>One round of the loop: the entry pushed for the key \<open>pid\<close> (the source's \<^verbatim>\<open>id\<close>).\<close>

definition resolvePlugin :: "env \<Rightarrow> creator \<Rightarrow> jsval \<Rightarrow> string \<Rightarrow> plugin io" where
  "resolvePlugin env this rawPlugins pid =
     (let apply = loadModule env (pid @ ''/generator'') (cr_context this) in
      bind_io (lift_io (getprop rawPlugins pid)) (\<lambda>raw.
      let options = (if truthy raw then raw else JObj []) in
      bind_io (lift_io (getprop options ''prompts'')) (\<lambda>flag.
      bind_io
        (if truthy flag then
           (case loadModule env (pid @ ''/prompts'') (cr_context this) of
              Some prompts \<Rightarrow>
                bind_io (lift_io (getprop options ''_isPreset'')) (\<lambda>isPreset.
                then_io (emit (Log MsgBlank))
                 (then_io (emit (Log (MsgPluginHeader (if truthy isPreset then ''Preset options:'' else pid))))
                   (then_io (emit (PluginPrompt prompts))
                     (return_io (JObj (inquirer_prompt env prompts))))))
            | None \<Rightarrow> return_io options)
         else return_io options)
        (\<lambda>options. return_io \<lparr>plugin_id = pid, plugin_apply = apply, plugin_options = options\<rparr>))))"

fun resolvePlugins_loop ::
  "env \<Rightarrow> creator \<Rightarrow> jsval \<Rightarrow> string list \<Rightarrow> plugin list \<Rightarrow> plugin list io" where
  "resolvePlugins_loop env this rawPlugins [] plugins = return_io plugins"
| "resolvePlugins_loop env this rawPlugins (pid # ids) plugins =
     bind_io (resolvePlugin env this rawPlugins pid)
       (\<lambda>p. resolvePlugins_loop env this rawPlugins ids (plugins @ [p]))"

definition resolvePlugins :: "env \<Rightarrow> creator \<Rightarrow> jsval \<Rightarrow> plugin list io" where
  "resolvePlugins env this rawPlugins =
     bind_io (lift_io (Object_keys rawPlugins))
       (\<lambda>ids. resolvePlugins_loop env this rawPlugins ids [])"

subsection \<open>\<^verbatim>\<open>getPresets\<close> (lines 232-235)\<close>

text \<open>
  \<^verbatim>\<open>Object.assign(target, source)\<close> on own properties: a key the target has keeps
  its place and takes the source's value, a new key is appended. A source that is
  \<^verbatim>\<open>undefined\<close> is skipped.
\<close>

fun assign_prop :: "(string \<times> jsval) list \<Rightarrow> string \<times> jsval \<Rightarrow> (string \<times> jsval) list" where
  "assign_prop [] (k, v) = [(k, v)]"
| "assign_prop ((k', v') # m) (k, v) =
     (if k' = k then (k, v) # m else (k', v') # assign_prop m (k, v))"

definition Object_assign ::
  "(string \<times> jsval) list \<Rightarrow> (string \<times> jsval) list option \<Rightarrow> (string \<times> jsval) list" where
  "Object_assign target source =
     (case source of None \<Rightarrow> target | Some m \<Rightarrow> foldl assign_prop target m)"

definition getPresets :: "env \<Rightarrow> (string \<times> jsval) list" where
  "getPresets env =
     Object_assign (Object_assign [] (saved_presets env)) (Some (defaults_presets env))"

subsection \<open>\<^verbatim>\<open>resolvePreset\<close> (lines 179-212)\<close>

definition resolvePreset :: "env \<Rightarrow> string \<Rightarrow> jsval \<Rightarrow> jsval io" where
  "resolvePreset env name clone =
     (let savedPresets = (case saved_presets env of Some m \<Rightarrow> m | None \<Rightarrow> []) in
      then_io (emit ConsoleLog)
        (if js_in name savedPresets then return_io (lookup_prop (JObj savedPresets) name)
         else if CHR ''/'' \<in> set name then
           then_io (emit (LogWithSpinner (MsgFetching name)))
             (catch_io
                (bind_io ([LoadRemotePreset name clone], loadRemotePreset env name clone)
                   (\<lambda>preset. then_io (emit StopSpinner) (return_io preset)))
                (\<lambda>e. then_io (emit StopSpinner)
                        (then_io (emit (ErrorLog (MsgFetchFailed name))) (throw_io e))))
         else return_io JUndefined))"

subsection \<open>\<^verbatim>\<open>promptAndResolvePreset\<close> (lines 166-177)\<close>

text \<open>
  Modelled from the spec: \<^verbatim>\<open>validatePreset\<close> of \<^verbatim>\<open>./options\<close> is not part of the
  source at hand. The preset is validated against a schema, and validation fails with
  \<open>InvalidPreset\<close> on a missing or malformed \<open>plugins\<close> map.
\<close>

definition valid_preset :: "jsval \<Rightarrow> bool" where
  "valid_preset preset =
     (case preset of
        JObj m \<Rightarrow> (case map_of m ''plugins'' of Some (JObj ps) \<Rightarrow> True | _ \<Rightarrow> False)
      | _ \<Rightarrow> False)"

definition validatePreset :: "jsval \<Rightarrow> unit io" where
  "validatePreset preset =
     call_io (ValidatePreset preset) (if valid_preset preset then None else Some InvalidPreset)"

text \<open>
  \<open>answers\<close> is \<open>None\<close> for \<^verbatim>\<open>null\<close> (the interview runs: \<^verbatim>\<open>resolveFinalPrompts\<close>
  handed to \<^verbatim>\<open>inquirer.prompt\<close>), else the \<^verbatim>\<open>preset\<close> entry of the answers given.
\<close>

definition promptAndResolvePreset :: "env \<Rightarrow> string option \<Rightarrow> jsval io" where
  "promptAndResolvePreset env answers =
     bind_io
       (case answers of
          None \<Rightarrow> then_io (emit ClearConsole) (then_io (emit Interview) (return_io (interview_preset env)))
        | Some a \<Rightarrow> return_io a)
       (\<lambda>answers_preset.
          bind_io (resolvePreset env answers_preset JUndefined)
            (\<lambda>preset. then_io (validatePreset preset) (return_io preset)))"

subsection \<open>\<^verbatim>\<open>shouldInitGit\<close> (lines 325-330)\<close>

definition shouldInitGit :: "env \<Rightarrow> bool" where
  "shouldInitGit env = (if \<not> hasGit env then False else True)"

subsection \<open>\<^verbatim>\<open>create\<close> (lines 54-159)\<close>

text \<open>
  \<^verbatim>\<open>cloneDeep\<close> of lodash on values: a structurally equal copy; a function at the top
  is copied to an empty object, a function below the top is kept.
\<close>

fun cloneDeep_below :: "jsval \<Rightarrow> jsval" where
  "cloneDeep_below (JArr xs) = JArr (map cloneDeep_below xs)"
| "cloneDeep_below (JObj m) = JObj (map (map_prod (\<lambda>k. k) cloneDeep_below) m)"
| "cloneDeep_below v = v"

fun cloneDeep :: "jsval \<Rightarrow> jsval" where
  "cloneDeep (JBuiltin f) = JObj []"
| "cloneDeep v = cloneDeep_below v"

text \<open>The package manager expression of lines 64-69; \<open>cliPm\<close> is \<^verbatim>\<open>cliOptions.packageManager\<close>.\<close>

definition select_packageManager :: "env \<Rightarrow> jsval \<Rightarrow> jsval" where
  "select_packageManager env cliPm =
     (if truthy cliPm then cliPm
      else if truthy (saved_packageManager env) then saved_packageManager env
      else if truthy (if hasYarn env then JStr ''yarn'' else JNull)
        then (if hasYarn env then JStr ''yarn'' else JNull)
      else (if hasPnpm3OrLater env then JStr ''pnpm'' else JStr ''npm''))"

record prepared =
  st_packageManager :: jsval
  st_shouldInitGit :: bool
  st_generator :: generator
  st_afterInvokeCbs :: "callback list"
  st_afterAnyInvokeCbs :: "callback list"

text \<open>
  Lines 54-117: from the preset to the installed dependencies. The generator is handed
  the two callback lists of the Creator and may have appended to them.
\<close>

definition create_prepare :: "env \<Rightarrow> creator \<Rightarrow> jsval \<Rightarrow> jsval \<Rightarrow> prepared io" where
  "create_prepare env this cliOptions_arg preset_arg =
     (let cliOptions = (if cliOptions_arg = JUndefined then JObj [] else cliOptions_arg);
          preset0 = (if preset_arg = JUndefined then JNull else preset_arg) in
      bind_io (if \<not> truthy preset0 then promptAndResolvePreset env None else return_io preset0)
        (\<lambda>preset1.
      let preset = cloneDeep preset1 in
      bind_io (lift_io (getprop cliOptions ''packageManager'')) (\<lambda>cliPm.
      let packageManager = select_packageManager env cliPm in
      then_io (emit ClearConsole)
      (then_io (emit (LogWithSpinner (MsgCreating (cr_context this))))
      (let pkg = \<lparr>pkg_name = cr_name this, pkg_version = ''0.1.0'', pkg_private = True,
                   pkg_devDependencies = []\<rparr> in
      bind_io (lift_io (getprop preset ''plugins'')) (\<lambda>rawPlugins.
      bind_io (lift_io (Object_keys rawPlugins)) (\<lambda>deps.
      then_io (call_io (WriteFileTree (cr_context this) [(''package.json'', Json pkg)])
                 (writeFileTree env (cr_context this) [(''package.json'', Json pkg)]))
      (let shouldInitGit = shouldInitGit env in
      then_io (if shouldInitGit
               then then_io (emit (LogWithSpinner MsgInitGit))
                      (then_io (emit (Emit ''creation'' ''git-init''))
                         (run env this ''git init'' None))
               else return_io ())
      (then_io (emit StopSpinner)
      (then_io (emit (Log MsgInitPlugins))
      (then_io (emit (Log MsgBlank))
      (then_io (emit (Emit ''creation'' ''plugins-install''))
      (then_io (emit (Log MsgGenerating))
      (bind_io (resolvePlugins env this rawPlugins) (\<lambda>plugins.
      let generator = new_Generator env (cr_context this) pkg plugins in
      then_io (emit (Log MsgInstalling))
      (then_io (emit (Log MsgBlank))
      (then_io (if \<not> isTestOrDebug env
                then call_io (PmInstall (cr_context this) packageManager)
                       (pm_install env (cr_context this) packageManager)
                else return_io ())
      (return_io
         \<lparr>st_packageManager = packageManager, st_shouldInitGit = shouldInitGit,
          st_generator = generator,
          st_afterInvokeCbs = afterInvokeCbs this @ gen_afterInvoke generator,
          st_afterAnyInvokeCbs = afterAnyInvokeCbs this @ gen_afterAnyInvoke generator\<rparr>
      ))))))))))))))))))"

text \<open>Lines 120-126: the two \<^verbatim>\<open>for ... of\<close> loops, each callback awaited.\<close>

fun call_cb :: "callback \<Rightarrow> unit io" where
  "call_cb (Callback n None) = ([HookStart n, HookEnd n], Inr ())"
| "call_cb (Callback n (Some e)) = ([HookStart n], Inl e)"

fun run_cbs :: "callback list \<Rightarrow> unit io" where
  "run_cbs [] = return_io ()"
| "run_cbs (cb # cbs) = then_io (call_cb cb) (run_cbs cbs)"

definition run_hooks :: "callback list \<Rightarrow> callback list \<Rightarrow> unit io" where
  "run_hooks afterInvoke afterAnyInvoke =
     then_io (emit (LogWithSpinner MsgHooks))
       (then_io (run_cbs afterInvoke) (run_cbs afterAnyInvoke))"

text \<open>Lines 128-158: the README, the commit, the report.\<close>

definition create_finish :: "env \<Rightarrow> creator \<Rightarrow> prepared \<Rightarrow> unit io" where
  "create_finish env this st =
     then_io (emit StopSpinner)
     (then_io (emit (Log MsgBlank))
     (then_io (emit (LogWithSpinner MsgReadme))
     (then_io (call_io
                 (WriteFileTree (cr_context this)
                    [(''README.md'', Readme (gen_pkg (st_generator st)) (st_packageManager st))])
                 (writeFileTree env (cr_context this)
                    [(''README.md'', Readme (gen_pkg (st_generator st)) (st_packageManager st))]))
     (bind_io
        (if st_shouldInitGit st
         then then_io (run env this ''git add -A'' None)
                (catch_io
                   (then_io (run env this ''git'' (Some [''commit'', ''-m'', ''init'']))
                      (return_io False))
                   (\<lambda>e. return_io True))
         else return_io False)
        (\<lambda>gitCommitFailed.
     then_io (emit StopSpinner)
     (then_io (emit (Log MsgBlank))
     (then_io (emit (Log (MsgSuccess (cr_name this))))
     (then_io (emit (Log MsgBlank))
     (then_io (if gitCommitFailed then emit (Warn MsgCommitSkipped) else return_io ())
     (emit PrintExitLogs))))))))))"

definition create :: "env \<Rightarrow> creator \<Rightarrow> jsval \<Rightarrow> jsval \<Rightarrow> unit io" where
  "create env this cliOptions preset =
     bind_io (create_prepare env this cliOptions preset)
       (\<lambda>st. then_io (run_hooks (st_afterInvokeCbs st) (st_afterAnyInvokeCbs st))
               (create_finish env this st))"

section \<open>Derived notions used in the statements\<close>

fun is_object :: "jsval \<Rightarrow> bool" where
  "is_object (JObj m) = True"
| "is_object v = False"

text \<open>
  What one round of the loop of \<^verbatim>\<open>resolvePlugins\<close> leaves in \<open>options\<close>, in closed
  form: the raw options (an empty object when they are falsy), replaced by the answers
  when they carry a truthy \<^verbatim>\<open>prompts\<close> and the prompts module of the plugin loads.
  \<open>resolvePlugin_entry\<close> below proves that the loop body computes it.
\<close>

definition plugin_options_of :: "env \<Rightarrow> creator \<Rightarrow> jsval \<Rightarrow> string \<Rightarrow> jsval" where
  "plugin_options_of env this rawPlugins pid =
     (let raw = lookup_prop rawPlugins pid;
          options = (if truthy raw then raw else JObj []) in
      case (if truthy (lookup_prop options ''prompts'')
            then loadModule env (pid @ ''/prompts'') (cr_context this) else None) of
        Some prompts \<Rightarrow> JObj (inquirer_prompt env prompts)
      | None \<Rightarrow> options)"

definition plugin_entry :: "env \<Rightarrow> creator \<Rightarrow> jsval \<Rightarrow> string \<Rightarrow> plugin" where
  "plugin_entry env this rawPlugins pid =
     \<lparr>plugin_id = pid,
      plugin_apply = loadModule env (pid @ ''/generator'') (cr_context this),
      plugin_options = plugin_options_of env this rawPlugins pid\<rparr>"

text \<open>The events of a hook that runs to completion.\<close>

definition cb_events :: "callback \<Rightarrow> event list" where
  "cb_events cb = [HookStart (cb_id cb), HookEnd (cb_id cb)]"

text \<open>
  What the environment answers to the external call that an event records: the error
  thrown by the process, the file write or the install, if any.
\<close>

fun ev_error :: "env \<Rightarrow> event \<Rightarrow> error option" where
  "ev_error env (Execa command args cwd) = execa env command args cwd"
| "ev_error env (WriteFileTree dir files) = writeFileTree env dir files"
| "ev_error env (PmInstall dir pm) = pm_install env dir pm"
| "ev_error env ev = None"

fun is_Execa :: "event \<Rightarrow> bool" where
  "is_Execa (Execa command args cwd) = True"
| "is_Execa ev = False"

text \<open>The events that change the file system: file writes, processes, installs, hooks.\<close>

fun mutates :: "event \<Rightarrow> bool" where
  "mutates (WriteFileTree dir files) = True"
| "mutates (Execa command args cwd) = True"
| "mutates (PmInstall dir pm) = True"
| "mutates (HookStart n) = True"
| "mutates (HookEnd n) = True"
| "mutates ev = False"

fun is_ValidatePreset :: "event \<Rightarrow> bool" where
  "is_ValidatePreset (ValidatePreset preset) = True"
| "is_ValidatePreset ev = False"

text \<open>
  A computation is fail-stop when every external call in its trace that failed, the
  tolerated one apart, is the last event of the trace and its error is the outcome.
\<close>

definition fail_stop :: "env \<Rightarrow> event \<Rightarrow> 'a io \<Rightarrow> bool" where
  "fail_stop env tolerated m =
     (\<forall>t1 ev t2 e. fst m = t1 @ ev # t2 \<and> ev_error env ev = Some e \<and> ev \<noteq> tolerated
        \<longrightarrow> t2 = [] \<and> snd m = Inl e)"

text \<open>The events of preset acquisition (\<^verbatim>\<open>promptAndResolvePreset\<close>).\<close>

fun preset_event :: "event \<Rightarrow> bool" where
  "preset_event ClearConsole = True"
| "preset_event Interview = True"
| "preset_event ConsoleLog = True"
| "preset_event (LogWithSpinner msg) = True"
| "preset_event (LoadRemotePreset name clone) = True"
| "preset_event StopSpinner = True"
| "preset_event (ErrorLog msg) = True"
| "preset_event (ValidatePreset preset) = True"
| "preset_event ev = False"

section \<open>A concrete environment\<close>

text \<open>
  A host with git and no Yarn or PNPM, in test mode: \<open>plugin-a\<close> has a generator,
  \<open>plugin-b\<close> has prompts and no generator. It instantiates the theorems below.
\<close>

definition example_env :: env where
  "example_env =
     \<lparr>hasGit = True, hasYarn = False, hasPnpm3OrLater = False, isTestOrDebug = True,
      saved_packageManager = JUndefined,
      saved_presets = Some [(''mine'', JObj [(''plugins'', JObj [(''plugin-a'', JObj [])])]),
                            (''default'', JObj [(''plugins'', JObj [(''plugin-b'', JObj [])])])],
      defaults_presets = [(''default'', JObj [(''plugins'', JObj [])])],
      loadModule = (\<lambda>request ctx.
         if request = ''plugin-a/generator'' then Some (JsFun 1)
         else if request = ''plugin-b/prompts'' then Some (JsFun 2) else None),
      inquirer_prompt = (\<lambda>prompts. [(''answer'', JStr ''yes'')]),
      interview_preset = ''mine'',
      loadRemotePreset = (\<lambda>name clone. Inl (FetchError 1)),
      execa = (\<lambda>command args cwd. None),
      writeFileTree = (\<lambda>dir files. None),
      pm_install = (\<lambda>dir pm. None),
      new_Generator = (\<lambda>dir p plugins.
         \<lparr>gen_pkg = p, gen_afterInvoke = [], gen_afterAnyInvoke = []\<rparr>)\<rparr>"

definition example_creator :: creator where
  "example_creator =
     \<lparr>cr_name = ''app'', cr_context = ''/work/app'',
      afterInvokeCbs = [Callback 1 None, Callback 2 (Some (HookError 2)), Callback 3 None],
      afterAnyInvokeCbs = [Callback 4 None]\<rparr>"

definition example_plugins :: "(string \<times> jsval) list" where
  "example_plugins = [(''plugin-a'', JObj []), (''plugin-b'', JObj [(''prompts'', JBool True)])]"

definition example_preset :: jsval where
  "example_preset = JObj [(''plugins'', JObj example_plugins)]"

definition example_pkg :: pkg where
  "example_pkg = \<lparr>pkg_name = ''app'', pkg_version = ''0.1.0'', pkg_private = True,
                   pkg_devDependencies = []\<rparr>"

definition example_prepare_trace :: "event list" where
  "example_prepare_trace =
     [ClearConsole, LogWithSpinner (MsgCreating ''/work/app''),
      WriteFileTree ''/work/app'' [(''package.json'', Json example_pkg)],
      LogWithSpinner MsgInitGit, Emit ''creation'' ''git-init'',
      Execa ''git'' [''init''] ''/work/app'', StopSpinner, Log MsgInitPlugins, Log MsgBlank,
      Emit ''creation'' ''plugins-install'', Log MsgGenerating,
      Log MsgBlank, Log (MsgPluginHeader ''plugin-b''), PluginPrompt (JsFun 2),
      Log MsgInstalling, Log MsgBlank]"

definition example_prepared :: prepared where
  "example_prepared =
     \<lparr>st_packageManager = JStr ''npm'', st_shouldInitGit = True,
      st_generator = \<lparr>gen_pkg = example_pkg, gen_afterInvoke = [], gen_afterAnyInvoke = []\<rparr>,
      st_afterInvokeCbs = [Callback 1 None, Callback 2 (Some (HookError 2)), Callback 3 None],
      st_afterAnyInvokeCbs = [Callback 4 None]\<rparr>"

text \<open>Variants: a host where \<^verbatim>\<open>git commit\<close> fails, one where \<^verbatim>\<open>git init\<close> fails, hooks that all succeed.\<close>

definition example_env_commit_fails :: env where
  "example_env_commit_fails =
     example_env\<lparr>execa := (\<lambda>command args cwd.
        if args = [''commit'', ''-m'', ''init''] then Some (ExecError 128) else None)\<rparr>"

definition example_env_init_fails :: env where
  "example_env_init_fails =
     example_env\<lparr>execa := (\<lambda>command args cwd.
        if args = [''init''] then Some (ExecError 1) else None)\<rparr>"

definition example_creator_ok :: creator where
  "example_creator_ok =
     example_creator\<lparr>afterInvokeCbs := [Callback 1 None], afterAnyInvokeCbs := [Callback 4 None]\<rparr>"

definition example_env_no_git :: env where
  "example_env_no_git = example_env\<lparr>hasGit := False\<rparr>"

definition example_finish_trace :: "bool \<Rightarrow> event list" where
  "example_finish_trace git =
     [LogWithSpinner MsgHooks, HookStart 1, HookEnd 1, HookStart 4, HookEnd 4,
      StopSpinner, Log MsgBlank, LogWithSpinner MsgReadme,
      WriteFileTree ''/work/app'' [(''README.md'', Readme example_pkg (JStr ''npm''))]]
     @ (if git then [Execa ''git'' [''add'', ''-A''] ''/work/app'',
                     Execa ''git'' [''commit'', ''-m'', ''init''] ''/work/app''] else [])
     @ [StopSpinner, Log MsgBlank, Log (MsgSuccess ''app''), Log MsgBlank, PrintExitLogs]"

text \<open>An interview that picks a name that is not saved; a supplied preset whose \<open>plugins\<close> is a string.\<close>

definition example_env_webpack :: env where
  "example_env_webpack = example_env\<lparr>interview_preset := ''webpack''\<rparr>"

definition malformed_preset :: jsval where
  "malformed_preset = JObj [(''plugins'', JStr ''x'')]"

section \<open>Basic facts about the effect layer\<close>

lemma bind_io_Inl: "bind_io (t, Inl e) f = (t, Inl e)"
  by (simp add: bind_io_def)

lemma bind_io_Inr: "bind_io (t, Inr a) f = (t @ fst (f a), snd (f a))"
  by (simp add: bind_io_def split: prod.splits)

lemma then_io_Inl: "then_io (t, Inl e) k = (t, Inl e)"
  by (simp add: then_io_def bind_io_Inl)

lemma then_io_Inr: "then_io (t, Inr a) k = (t @ fst k, snd k)"
  by (simp add: then_io_def bind_io_Inr)

lemma catch_io_Inl: "catch_io (t, Inl e) h = (t @ fst (h e), snd (h e))"
  by (simp add: catch_io_def split: prod.splits)

lemma catch_io_Inr: "catch_io (t, Inr a) h = (t, Inr a)"
  by (simp add: catch_io_def)

lemmas io_simps = bind_io_Inl bind_io_Inr then_io_Inl then_io_Inr return_io_def throw_io_def
  emit_def lift_io_def

lemma getprop_truthy: "truthy v \<Longrightarrow> getprop v k = Inr (lookup_prop v k)"
  by (cases v) simp_all

lemma getprop_JObj: "getprop (JObj m) k = Inr (lookup_prop (JObj m) k)"
  by simp

lemma split_ws_git_init: "split_ws ''git init'' = [''git'', ''init'']"
  by (simp add: is_space_def)

lemma split_ws_git_add: "split_ws ''git add -A'' = [''git'', ''add'', ''-A'']"
  by (simp add: is_space_def)

section \<open>Plugin resolution\<close>

lemma resolvePlugin_entry:
  "\<exists>t. resolvePlugin env this (JObj m) pid = (t, Inr (plugin_entry env this (JObj m) pid))"
proof -
  define raw where "raw = lookup_prop (JObj m) pid"
  define options where "options = (if truthy raw then raw else JObj [])"
  have tr: "truthy options" by (simp add: options_def)
  show ?thesis
    unfolding resolvePlugin_def plugin_entry_def plugin_options_of_def Let_def
      raw_def[symmetric] getprop_JObj lift_io_def bind_io_Inr fst_conv snd_conv
      options_def[symmetric]
    using tr
    by (auto simp: io_simps getprop_truthy split: option.splits)
qed

lemma plugin_options_of_object:
  "\<not> truthy (lookup_prop raws pid) \<or> is_object (lookup_prop raws pid)
   \<Longrightarrow> is_object (plugin_options_of env this raws pid)"
  by (auto simp: plugin_options_of_def Let_def split: option.splits)

lemma resolvePlugins_loop_entries:
  "\<exists>t. resolvePlugins_loop env this (JObj m) ids acc =
         (t, Inr (acc @ map (plugin_entry env this (JObj m)) ids))"
proof (induction ids arbitrary: acc)
  case Nil
  show ?case by (simp add: return_io_def)
next
  case (Cons pid ids)
  obtain t1 where t1:
    "resolvePlugin env this (JObj m) pid = (t1, Inr (plugin_entry env this (JObj m) pid))"
    using resolvePlugin_entry[of env this m pid] by auto
  obtain t2 where t2:
    "resolvePlugins_loop env this (JObj m) ids (acc @ [plugin_entry env this (JObj m) pid]) =
       (t2, Inr ((acc @ [plugin_entry env this (JObj m) pid])
                  @ map (plugin_entry env this (JObj m)) ids))"
    using Cons.IH by blast
  show ?case
    by (simp add: t1 t2 bind_io_Inr)
qed

lemma resolvePlugins_entries:
  "\<exists>t. resolvePlugins env this (JObj m) =
         (t, Inr (map (plugin_entry env this (JObj m)) (ordinary_keys (map fst m))))"
  using resolvePlugins_loop_entries[of env this m "ordinary_keys (map fst m)" "[]"]
  by (auto simp: resolvePlugins_def lift_io_def bind_io_Inr)

lemma mset_ordinary_keys: "mset (ordinary_keys ks) = mset ks"
  by (simp add: ordinary_keys_def)

lemma ordinary_keys_no_index:
  "\<forall>k \<in> set ks. \<not> is_array_index k \<Longrightarrow> ordinary_keys ks = ks"
  by (simp add: ordinary_keys_def filter_empty_conv[THEN iffD2] filter_id_conv[THEN iffD2])

lemma is_array_index_plugin_a: "\<not> is_array_index ''plugin-a''"
  by (simp add: is_array_index_def is_digit_def)

lemma is_array_index_plugin_b: "\<not> is_array_index ''plugin-b''"
  by (simp add: is_array_index_def is_digit_def)

section \<open>Merging presets\<close>

lemma map_of_assign_prop: "map_of (assign_prop m (k, v)) = (map_of m)(k \<mapsto> v)"
  by (induction m) (auto simp: fun_eq_iff)

lemma map_of_foldl_assign_prop:
  "distinct (map fst s) \<Longrightarrow> map_of (foldl assign_prop t s) = map_of t ++ map_of s"
proof (induction s arbitrary: t)
  case Nil
  show ?case by simp
next
  case (Cons kv s)
  obtain k v where kv: "kv = (k, v)" by (cases kv)
  from Cons.prems kv have d: "distinct (map fst s)" and nk: "k \<notin> fst ` set s" by auto
  have "map_of (foldl assign_prop t (kv # s)) = map_of (assign_prop t (k, v)) ++ map_of s"
    using Cons.IH[OF d] kv by simp
  also have "\<dots> = (map_of t)(k \<mapsto> v) ++ map_of s"
    by (simp add: map_of_assign_prop)
  also have "\<dots> = map_of t ++ map_of (kv # s)"
  proof -
    have none: "map_of s k = None"
      using nk by (simp add: map_of_eq_None_iff)
    show ?thesis
      unfolding kv using none by (auto simp: fun_eq_iff map_add_def split: option.splits)
  qed
  finally show ?case .
qed

section \<open>Facts about \<^verbatim>\<open>create\<close>\<close>

lemma fst_bind_io:
  "fst (bind_io m f) = fst m @ (case snd m of Inl e \<Rightarrow> [] | Inr a \<Rightarrow> fst (f a))"
  by (cases m; cases "snd m") (auto simp: bind_io_def split: prod.splits)

lemma snd_bind_io:
  "snd (bind_io m f) = (case snd m of Inl e \<Rightarrow> Inl e | Inr a \<Rightarrow> snd (f a))"
  by (cases m; cases "snd m") (auto simp: bind_io_def split: prod.splits)

lemma fst_then_io:
  "fst (then_io m k) = fst m @ (case snd m of Inl e \<Rightarrow> [] | Inr a \<Rightarrow> fst k)"
  by (simp add: then_io_def fst_bind_io)

lemma snd_then_io:
  "snd (then_io m k) = (case snd m of Inl e \<Rightarrow> Inl e | Inr a \<Rightarrow> snd k)"
  by (simp add: then_io_def snd_bind_io)

lemma getprop_eq_Inr:
  "getprop v k = Inr x \<longleftrightarrow> (v \<noteq> JUndefined \<and> v \<noteq> JNull \<and> x = lookup_prop v k)"
  by (cases v) auto

lemma snd_emit: "snd (emit ev) = Inr ()" by (simp add: emit_def)
lemma snd_return_io: "snd (return_io a) = Inr a" by (simp add: return_io_def)
lemma snd_lift_io: "snd (lift_io r) = r" by (simp add: lift_io_def)

lemmas snd_io = snd_bind_io snd_then_io snd_emit snd_return_io snd_lift_io

lemma create_prepare_state:
  assumes "snd (create_prepare env this cliOptions preset) = Inr st"
  shows "st = \<lparr>st_packageManager =
                  select_packageManager env
                    (lookup_prop (if cliOptions = JUndefined then JObj [] else cliOptions)
                       ''packageManager''),
               st_shouldInitGit = hasGit env,
               st_generator = st_generator st,
               st_afterInvokeCbs = afterInvokeCbs this @ gen_afterInvoke (st_generator st),
               st_afterAnyInvokeCbs =
                  afterAnyInvokeCbs this @ gen_afterAnyInvoke (st_generator st)\<rparr>"
  using assms
  unfolding create_prepare_def Let_def
  by (auto simp: snd_io shouldInitGit_def getprop_eq_Inr split: sum.splits if_splits)

lemma then_io_assoc: "then_io (then_io m k) k' = then_io m (then_io k k')"
  by (cases m; cases "snd m"; cases k; cases "snd k")
     (auto simp: then_io_def bind_io_def split: prod.splits)

lemma then_io_return: "then_io (return_io ()) k = k"
  by (simp add: then_io_def bind_io_def return_io_def split: prod.splits)

lemma run_cbs_append: "run_cbs (xs @ ys) = then_io (run_cbs xs) (run_cbs ys)"
  by (induction xs) (simp_all add: then_io_return then_io_assoc)

lemma call_cb_ok: "cb_error cb = None \<Longrightarrow> call_cb cb = (cb_events cb, Inr ())"
  by (cases cb) (simp add: cb_events_def)

lemma call_cb_fail: "cb_error cb = Some e \<Longrightarrow> call_cb cb = ([HookStart (cb_id cb)], Inl e)"
  by (cases cb) simp

lemma run_cbs_ok:
  "\<forall>cb \<in> set cbs. cb_error cb = None \<Longrightarrow> run_cbs cbs = (concat (map cb_events cbs), Inr ())"
proof (induction cbs)
  case Nil
  show ?case by (simp add: return_io_def)
next
  case (Cons cb cbs)
  then show ?case
    by (simp add: call_cb_ok then_io_Inr)
qed

lemma run_cbs_fail:
  assumes "k < length cbs" and "cb_error (cbs ! k) = Some e"
    and "\<forall>j < k. cb_error (cbs ! j) = None"
  shows "run_cbs cbs = (concat (map cb_events (take k cbs)) @ [HookStart (cb_id (cbs ! k))], Inl e)"
proof -
  have split: "cbs = take k cbs @ (cbs ! k) # drop (Suc k) cbs"
    using assms(1) by (simp add: id_take_nth_drop)
  have ok: "\<forall>cb \<in> set (take k cbs). cb_error cb = None"
    using assms(1,3) by (auto simp: in_set_conv_nth)
  have "run_cbs cbs = then_io (run_cbs (take k cbs)) (run_cbs ((cbs ! k) # drop (Suc k) cbs))"
    using split run_cbs_append[of "take k cbs" "(cbs ! k) # drop (Suc k) cbs"] by simp
  also have "\<dots> = (concat (map cb_events (take k cbs)) @ [HookStart (cb_id (cbs ! k))], Inl e)"
    by (simp add: run_cbs_ok[OF ok] call_cb_fail[OF assms(2)] then_io_Inr then_io_Inl)
  finally show ?thesis .
qed

lemma run_hooks_ok:
  "\<forall>cb \<in> set (xs @ ys). cb_error cb = None \<Longrightarrow>
   run_hooks xs ys = (LogWithSpinner MsgHooks # concat (map cb_events (xs @ ys)), Inr ())"
  unfolding run_hooks_def run_cbs_append[symmetric]
  by (simp only: run_cbs_ok emit_def then_io_Inr fst_conv snd_conv append_Cons append_Nil)

lemma run_hooks_fail:
  assumes "k < length (xs @ ys)" and "cb_error ((xs @ ys) ! k) = Some e"
    and "\<forall>j < k. cb_error ((xs @ ys) ! j) = None"
  shows "run_hooks xs ys =
           (LogWithSpinner MsgHooks # concat (map cb_events (take k (xs @ ys)))
              @ [HookStart (cb_id ((xs @ ys) ! k))], Inl e)"
  unfolding run_hooks_def run_cbs_append[symmetric]
  by (simp only: run_cbs_fail[OF assms] emit_def then_io_Inr fst_conv snd_conv append_Cons
        append_Nil)

section \<open>Events of a run, and failing calls\<close>

lemma fail_stop_quiet:
  "\<forall>ev \<in> set (fst m). ev_error env ev = None \<Longrightarrow> fail_stop env c m"
  by (auto simp: fail_stop_def)

lemma fail_stop_return: "fail_stop env c (return_io a)"
  by (simp add: fail_stop_def return_io_def)

lemma fail_stop_throw: "fail_stop env c (throw_io e)"
  by (simp add: fail_stop_def throw_io_def)

lemma fail_stop_lift: "fail_stop env c (lift_io r)"
  by (simp add: fail_stop_def lift_io_def)

lemma fail_stop_emit: "ev_error env ev = None \<Longrightarrow> fail_stop env c (emit ev)"
  by (auto simp: fail_stop_def emit_def Cons_eq_append_conv)

lemma fail_stop_call: "fail_stop env c (call_io ev (ev_error env ev))"
  by (auto simp: fail_stop_def call_io_def Cons_eq_append_conv)

lemma fail_stop_call_quiet: "ev_error env ev = None \<Longrightarrow> fail_stop env c (call_io ev r)"
  by (auto simp: fail_stop_def call_io_def Cons_eq_append_conv)

lemma fail_stop_bind:
  assumes m: "fail_stop env c m" and f: "\<And>a. fail_stop env c (f a)"
  shows "fail_stop env c (bind_io m f)"
proof (cases "snd m")
  case (Inl e0)
  then have "bind_io m f = (fst m, Inl e0)"
    by (cases m) (simp add: bind_io_Inl)
  then show ?thesis using m Inl by (simp add: fail_stop_def)
next
  case (Inr a)
  then have b: "bind_io m f = (fst m @ fst (f a), snd (f a))"
    by (cases m) (simp add: bind_io_Inr)
  show ?thesis
    unfolding fail_stop_def b fst_conv snd_conv
  proof (intro allI impI)
    fix t1 ev t2 e
    assume h: "fst m @ fst (f a) = t1 @ ev # t2 \<and> ev_error env ev = Some e \<and> ev \<noteq> c"
    then consider (left) us where "fst m = t1 @ ev # us" "t2 = us @ fst (f a)"
      | (right) us where "t1 = fst m @ us" "fst (f a) = us @ ev # t2"
      by (auto simp: append_eq_append_conv2 append_eq_Cons_conv Cons_eq_append_conv)
    then show "t2 = [] \<and> snd (f a) = Inl e"
    proof cases
      case left
      with m h have "snd m = Inl e" by (auto simp: fail_stop_def)
      with Inr show ?thesis by simp
    next
      case right
      with f[of a] h show ?thesis by (auto simp: fail_stop_def)
    qed
  qed
qed

lemma fail_stop_then:
  "fail_stop env c m \<Longrightarrow> fail_stop env c k \<Longrightarrow> fail_stop env c (then_io m k)"
  by (simp add: then_io_def fail_stop_bind)

lemma fail_stop_run_cbs: "fail_stop env c (run_cbs cbs)"
proof (induction cbs)
  case Nil
  show ?case by (simp add: fail_stop_return)
next
  case (Cons cb cbs)
  have "fail_stop env c (call_cb cb)"
    by (cases cb; cases "cb_error cb") (auto intro!: fail_stop_quiet)
  with Cons show ?case by (simp add: fail_stop_then)
qed

lemmas fail_stop_intros = fail_stop_bind fail_stop_then fail_stop_return fail_stop_throw
  fail_stop_lift fail_stop_emit fail_stop_call fail_stop_run_cbs

lemma fail_stop_run: "fail_stop env c (run env this command args)"
proof -
  have "\<And>cmd as. fail_stop env c (call_io (Execa cmd as (cr_context this)) (execa env cmd as (cr_context this)))"
    using fail_stop_call[of env c "Execa _ _ (cr_context this)"] by simp
  then show ?thesis
    by (auto simp: run_def fail_stop_throw split: option.splits list.splits)
qed

lemma fail_stop_resolvePlugin: "fail_stop env c (resolvePlugin env this raws pid)"
  unfolding resolvePlugin_def Let_def
  by (auto intro!: fail_stop_intros split: option.splits)

lemma fail_stop_resolvePlugins_loop: "fail_stop env c (resolvePlugins_loop env this raws ids acc)"
  by (induction ids arbitrary: acc) (auto intro!: fail_stop_intros fail_stop_resolvePlugin)

lemma fail_stop_resolvePlugins: "fail_stop env c (resolvePlugins env this raws)"
  unfolding resolvePlugins_def
  by (auto intro!: fail_stop_intros fail_stop_resolvePlugins_loop)

lemma fail_stop_tolerated:
  "\<forall>ev \<in> set (fst m). ev = c \<or> ev_error env ev = None \<Longrightarrow> fail_stop env c m"
  by (auto simp: fail_stop_def)

lemma all_bind:
  "list_all P (fst m) \<Longrightarrow> (\<And>a. snd m = Inr a \<Longrightarrow> list_all P (fst (f a)))
   \<Longrightarrow> list_all P (fst (bind_io m f))"
  by (cases m; cases "snd m") (auto simp: bind_io_def split: prod.splits)

lemma all_then:
  "list_all P (fst m) \<Longrightarrow> list_all P (fst k) \<Longrightarrow> list_all P (fst (then_io m k))"
  by (simp add: then_io_def all_bind)

lemma all_catch:
  "list_all P (fst m) \<Longrightarrow> (\<And>e. list_all P (fst (h e))) \<Longrightarrow> list_all P (fst (catch_io m h))"
proof (cases m)
  case (Pair t r)
  assume m: "list_all P (fst m)" and h: "\<And>e. list_all P (fst (h e))"
  show ?thesis
  proof (cases r)
    case (Inl e)
    with Pair m h[of e] show ?thesis by (simp add: catch_io_Inl)
  next
    case (Inr a)
    with Pair m show ?thesis by (simp add: catch_io_Inr)
  qed
qed

lemma all_emit: "P ev \<Longrightarrow> list_all P (fst (emit ev))"
  by (simp add: emit_def)

lemma all_call: "P ev \<Longrightarrow> list_all P (fst (call_io ev r))"
  by (simp add: call_io_def)

lemma all_return: "list_all P (fst (return_io a))"
  by (simp add: return_io_def)

lemma all_throw: "list_all P (fst (throw_io e))"
  by (simp add: throw_io_def)

lemma all_lift: "list_all P (fst (lift_io r))"
  by (simp add: lift_io_def)

lemmas all_intros = all_bind all_then all_catch all_emit all_call all_return all_throw all_lift

lemma all_pair: "list_all P t \<Longrightarrow> list_all P (fst (t, r))"
  by simp

lemma resolvePreset_events: "list_all preset_event (fst (resolvePreset env name clone))"
  unfolding resolvePreset_def Let_def
  by (auto intro!: all_intros all_pair)

lemma promptAndResolvePreset_events:
  "list_all preset_event (fst (promptAndResolvePreset env answers))"
  unfolding promptAndResolvePreset_def validatePreset_def
  by (auto intro!: all_intros resolvePreset_events split: option.splits)

lemma list_all_mono: "list_all P xs \<Longrightarrow> (\<And>x. P x \<Longrightarrow> Q x) \<Longrightarrow> list_all Q xs"
  by (auto simp: list_all_iff)

lemma fail_stop_promptAndResolvePreset:
  "fail_stop env c (promptAndResolvePreset env answers)"
proof (rule fail_stop_quiet)
  have "list_all (\<lambda>ev. ev_error env ev = None) (fst (promptAndResolvePreset env answers))"
  proof (rule list_all_mono[OF promptAndResolvePreset_events])
    fix ev assume "preset_event ev"
    then show "ev_error env ev = None" by (cases ev) simp_all
  qed
  then show "\<forall>ev \<in> set (fst (promptAndResolvePreset env answers)). ev_error env ev = None"
    by (simp add: list_all_iff)
qed

lemma fail_stop_create_prepare:
  "fail_stop env c (create_prepare env this cliOptions preset)"
  unfolding create_prepare_def Let_def
  by (auto intro!: fail_stop_intros fail_stop_promptAndResolvePreset fail_stop_resolvePlugins
        fail_stop_run fail_stop_call[of env c "WriteFileTree _ _", simplified]
        fail_stop_call[of env c "PmInstall _ _", simplified])

lemma fail_stop_run_hooks: "fail_stop env c (run_hooks xs ys)"
  unfolding run_hooks_def
  by (auto intro!: fail_stop_intros)

lemma fail_stop_create_finish:
  "fail_stop env (Execa ''git'' [''commit'', ''-m'', ''init''] (cr_context this))
     (create_finish env this st)"
proof -
  have c: "fail_stop env (Execa ''git'' [''commit'', ''-m'', ''init''] (cr_context this))
     (catch_io
        (then_io (run env this ''git'' (Some [''commit'', ''-m'', ''init''])) (return_io False))
        (\<lambda>e. return_io True))"
    by (rule fail_stop_tolerated)
       (auto simp: run_def call_io_def catch_io_def then_io_def bind_io_def return_io_def
          split: option.splits)
  show ?thesis
    unfolding create_finish_def
    by (auto intro!: fail_stop_intros fail_stop_run c
          fail_stop_call[of env _ "WriteFileTree _ _", simplified])
qed

lemma fail_stop_create:
  "fail_stop env (Execa ''git'' [''commit'', ''-m'', ''init''] (cr_context this))
     (create env this cliOptions preset)"
  unfolding create_def
  by (intro fail_stop_bind fail_stop_then fail_stop_create_prepare fail_stop_run_hooks
        fail_stop_create_finish)

lemma all_run_cbs:
  "(\<And>n. P (HookStart n)) \<Longrightarrow> (\<And>n. P (HookEnd n)) \<Longrightarrow> list_all P (fst (run_cbs cbs))"
proof (induction cbs)
  case Nil
  show ?case by (simp add: all_return)
next
  case (Cons cb cbs)
  have "list_all P (fst (call_cb cb))"
    using Cons.prems by (cases cb; cases "cb_error cb") simp_all
  with Cons show ?case by (simp add: all_then)
qed

lemma all_resolvePlugin:
  "(\<And>msg. P (Log msg)) \<Longrightarrow> (\<And>f. P (PluginPrompt f))
   \<Longrightarrow> list_all P (fst (resolvePlugin env this raws pid))"
  unfolding resolvePlugin_def Let_def
  by (auto intro!: all_intros split: option.splits)

lemma all_resolvePlugins_loop:
  "(\<And>msg. P (Log msg)) \<Longrightarrow> (\<And>f. P (PluginPrompt f))
   \<Longrightarrow> list_all P (fst (resolvePlugins_loop env this raws ids acc))"
  by (induction ids arbitrary: acc) (auto intro!: all_intros all_resolvePlugin)

lemma all_resolvePlugins:
  "(\<And>msg. P (Log msg)) \<Longrightarrow> (\<And>f. P (PluginPrompt f))
   \<Longrightarrow> list_all P (fst (resolvePlugins env this raws))"
  unfolding resolvePlugins_def
  by (auto intro!: all_intros all_resolvePlugins_loop)

lemma all_promptAndResolvePreset:
  "(\<And>ev. preset_event ev \<Longrightarrow> P ev) \<Longrightarrow> list_all P (fst (promptAndResolvePreset env answers))"
  using list_all_mono[OF promptAndResolvePreset_events] by blast

lemma create_no_git_events:
  assumes "\<not> hasGit env"
  shows "list_all (\<lambda>ev. \<not> is_Execa ev \<and> ev \<noteq> Emit ''creation'' ''git-init'')
           (fst (create env this cliOptions preset))"
proof -
  let ?P = "\<lambda>ev. \<not> is_Execa ev \<and> ev \<noteq> Emit ''creation'' ''git-init''"
  have acq: "list_all ?P (fst (promptAndResolvePreset env None))"
  proof (rule all_promptAndResolvePreset)
    fix ev assume "preset_event ev" then show "?P ev" by (cases ev) simp_all
  qed
  have plug: "\<And>raws. list_all ?P (fst (resolvePlugins env this raws))"
    by (rule all_resolvePlugins) simp_all
  have prep: "list_all ?P (fst (create_prepare env this cliOptions preset))"
    unfolding create_prepare_def Let_def
    using assms
    by (auto intro!: all_intros acq plug simp: shouldInitGit_def)
  have hooks: "\<And>xs ys. list_all ?P (fst (run_hooks xs ys))"
    unfolding run_hooks_def
    by (auto intro!: all_intros all_run_cbs)
  have fin: "\<And>st. \<not> st_shouldInitGit st \<Longrightarrow> list_all ?P (fst (create_finish env this st))"
    unfolding create_finish_def
    by (auto intro!: all_intros)
  show ?thesis
    unfolding create_def
  proof (rule all_bind[OF prep], rule all_then[OF hooks])
    fix st assume "snd (create_prepare env this cliOptions preset) = Inr st"
    from create_prepare_state[OF this] assms have "\<not> st_shouldInitGit st"
      by (metis prepared.select_convs(2))
    then show "list_all ?P (fst (create_finish env this st))" by (rule fin)
  qed
qed

lemma getprop_eq_Inr_sym:
  "Inr x = getprop v k \<longleftrightarrow> (v \<noteq> JUndefined \<and> v \<noteq> JNull \<and> x = lookup_prop v k)"
  by (cases v) auto

lemma create_prepare_git_init:
  assumes "snd (create_prepare env this cliOptions preset) = Inr st" and "hasGit env"
  shows "Emit ''creation'' ''git-init'' \<in> set (fst (create_prepare env this cliOptions preset))
       \<and> Execa ''git'' [''init''] (cr_context this)
           \<in> set (fst (create_prepare env this cliOptions preset))"
  using assms
  unfolding create_prepare_def Let_def
  by (auto simp: snd_io fst_bind_io fst_then_io shouldInitGit_def run_def split_ws_git_init
        call_io_def emit_def lift_io_def return_io_def getprop_eq_Inr getprop_eq_Inr_sym
        simp del: split_ws.simps split: sum.splits if_splits)

lemma promptAndResolvePreset_no_Emit:
  "Emit channel tag \<notin> set (fst (promptAndResolvePreset env answers))"
proof -
  have "list_all (\<lambda>ev. ev \<noteq> Emit channel tag) (fst (promptAndResolvePreset env answers))"
  proof (rule all_promptAndResolvePreset)
    fix ev assume "preset_event ev" then show "ev \<noteq> Emit channel tag" by (cases ev) simp_all
  qed
  then show ?thesis by (auto simp: list_all_iff)
qed

lemma create_prepare_reaches_plugins:
  assumes "Emit ''creation'' ''plugins-install''
             \<in> set (fst (create_prepare env this cliOptions preset))" and "hasGit env"
  shows "Emit ''creation'' ''git-init'' \<in> set (fst (create_prepare env this cliOptions preset))
       \<and> Execa ''git'' [''init''] (cr_context this)
           \<in> set (fst (create_prepare env this cliOptions preset))"
  using assms
  unfolding create_prepare_def Let_def
  by (auto simp: snd_io fst_bind_io fst_then_io shouldInitGit_def run_def split_ws_git_init
        call_io_def emit_def lift_io_def return_io_def getprop_eq_Inr getprop_eq_Inr_sym
        promptAndResolvePreset_no_Emit
        simp del: split_ws.simps split: sum.splits if_splits option.splits)

lemma fst_catch_io:
  "fst (catch_io m h) = fst m @ (case snd m of Inl e \<Rightarrow> fst (h e) | Inr a \<Rightarrow> [])"
  by (cases m; cases "snd m") (auto simp: catch_io_def split: prod.splits)

lemma snd_catch_io:
  "snd (catch_io m h) = (case snd m of Inl e \<Rightarrow> snd (h e) | Inr a \<Rightarrow> Inr a)"
  by (cases m; cases "snd m") (auto simp: catch_io_def split: prod.splits)

lemma create_finish_git:
  assumes "st_shouldInitGit st" and "snd (create_finish env this st) = Inr ()"
  shows "Execa ''git'' [''add'', ''-A''] (cr_context this) \<in> set (fst (create_finish env this st))
       \<and> Execa ''git'' [''commit'', ''-m'', ''init''] (cr_context this)
           \<in> set (fst (create_finish env this st))"
  using assms
  unfolding create_finish_def
  by (auto simp: snd_io fst_bind_io fst_then_io fst_catch_io snd_catch_io run_def
        split_ws_git_add call_io_def emit_def return_io_def
        simp del: split_ws.simps split: sum.splits if_splits option.splits)

lemma fst_create:
  "fst (create env this cliOptions preset) =
     fst (create_prepare env this cliOptions preset)
     @ (case snd (create_prepare env this cliOptions preset) of
          Inl e \<Rightarrow> []
        | Inr st \<Rightarrow>
            fst (run_hooks (st_afterInvokeCbs st) (st_afterAnyInvokeCbs st))
            @ (case snd (run_hooks (st_afterInvokeCbs st) (st_afterAnyInvokeCbs st)) of
                 Inl e \<Rightarrow> []
               | Inr u \<Rightarrow> fst (create_finish env this st)))"
  by (simp add: create_def fst_bind_io fst_then_io split: sum.splits)

lemma snd_create:
  "snd (create env this cliOptions preset) =
     (case snd (create_prepare env this cliOptions preset) of
        Inl e \<Rightarrow> Inl e
      | Inr st \<Rightarrow>
          (case snd (run_hooks (st_afterInvokeCbs st) (st_afterAnyInvokeCbs st)) of
             Inl e \<Rightarrow> Inl e
           | Inr u \<Rightarrow> snd (create_finish env this st)))"
  by (simp add: create_def snd_bind_io snd_then_io split: sum.splits)

lemma promptAndResolvePreset_interview:
  "resolvePreset env (interview_preset env) JUndefined = (tR, r) \<Longrightarrow>
   promptAndResolvePreset env None =
     (case r of
        Inl e \<Rightarrow> ([ClearConsole, Interview] @ tR, Inl e)
      | Inr p \<Rightarrow> ([ClearConsole, Interview] @ tR @ [ValidatePreset p],
                  if valid_preset p then Inr p else Inl InvalidPreset))"
  by (cases r) (simp_all add: promptAndResolvePreset_def validatePreset_def call_io_def io_simps)

lemma create_prepare_interactive:
  "\<not> truthy preset \<Longrightarrow>
   \<exists>K. create_prepare env this cliOptions preset = bind_io (promptAndResolvePreset env None) K"
  unfolding create_prepare_def Let_def
  by (cases preset) (simp_all, blast+)

lemma create_no_validation:
  assumes "truthy preset"
  shows "list_all (\<lambda>ev. \<not> is_ValidatePreset ev) (fst (create env this cliOptions preset))"
proof -
  let ?P = "\<lambda>ev. \<not> is_ValidatePreset ev"
  have plug: "\<And>raws. list_all ?P (fst (resolvePlugins env this raws))"
    by (rule all_resolvePlugins) simp_all
  have run: "\<And>command args. list_all ?P (fst (run env this command args))"
    by (auto simp: run_def call_io_def throw_io_def split: option.splits list.splits)
  have p0: "truthy (if preset = JUndefined then JNull else preset)"
    using assms by (cases preset) simp_all
  have prep: "list_all ?P (fst (create_prepare env this cliOptions preset))"
    unfolding create_prepare_def Let_def
    using p0
    by (auto intro!: all_intros plug run)
  have hooks: "\<And>xs ys. list_all ?P (fst (run_hooks xs ys))"
    unfolding run_hooks_def
    by (auto intro!: all_intros all_run_cbs)
  have fin: "\<And>st. list_all ?P (fst (create_finish env this st))"
    unfolding create_finish_def
    by (auto intro!: all_intros run)
  show ?thesis
    unfolding create_def
    by (intro all_bind all_then prep hooks fin)
qed

section \<open>The package manager\<close>

lemma select_packageManager_precedence:
  "select_packageManager env cliPm =
     (if truthy cliPm then cliPm
      else if truthy (saved_packageManager env) then saved_packageManager env
      else if hasYarn env then JStr ''yarn''
      else if hasPnpm3OrLater env then JStr ''pnpm''
      else JStr ''npm'')"
  by (simp add: select_packageManager_def)

lemma all_if:
  "(c \<Longrightarrow> list_all P (fst a)) \<Longrightarrow> (\<not> c \<Longrightarrow> list_all P (fst b))
   \<Longrightarrow> list_all P (fst (if c then a else b))"
  by simp

lemma create_packageManager_events:
  assumes ceq: "select_packageManager env
     (lookup_prop (if cliOptions = JUndefined then JObj [] else cliOptions) ''packageManager'')
     = chosen"
  shows "list_all (\<lambda>ev. (\<forall>d pm. ev = PmInstall d pm \<longrightarrow> pm = chosen)
                     \<and> (\<forall>d p pm. ev = WriteFileTree d [(''README.md'', Readme p pm)]
                           \<longrightarrow> pm = chosen))
           (fst (create env this cliOptions preset))"
proof -
  let ?P = "\<lambda>ev. (\<forall>d pm. ev = PmInstall d pm \<longrightarrow> pm = chosen)
                     \<and> (\<forall>d p pm. ev = WriteFileTree d [(''README.md'', Readme p pm)]
                           \<longrightarrow> pm = chosen)"
  have acq: "\<And>answers. list_all ?P (fst (promptAndResolvePreset env answers))"
  proof (rule all_promptAndResolvePreset)
    fix ev assume "preset_event ev" then show "?P ev" by (cases ev) simp_all
  qed
  have plug: "\<And>raws. list_all ?P (fst (resolvePlugins env this raws))"
    by (rule all_resolvePlugins) simp_all
  have run: "\<And>command args. list_all ?P (fst (run env this command args))"
    by (auto simp: run_def call_io_def throw_io_def split: option.splits list.splits)
  have pm_ev: "\<And>cliPm. getprop (if cliOptions = JUndefined then JObj [] else cliOptions)
       ''packageManager'' = Inr cliPm \<Longrightarrow> select_packageManager env cliPm = chosen"
    using ceq by (simp add: getprop_eq_Inr)
  have prep: "list_all ?P (fst (create_prepare env this cliOptions preset))"
    unfolding create_prepare_def Let_def
    by (intro all_intros all_if acq plug run; (simp add: snd_lift_io pm_ev)?)
  have hooks: "\<And>xs ys. list_all ?P (fst (run_hooks xs ys))"
    unfolding run_hooks_def
    by (auto intro!: all_intros all_run_cbs)
  have fin: "list_all ?P (fst (create_finish env this st))"
    if e: "st_packageManager st = chosen" for st
    unfolding create_finish_def
    by (intro all_intros all_if run; (simp add: e)?)
  show ?thesis
    unfolding create_def
  proof (rule all_bind[OF prep], rule all_then[OF hooks])
    fix st assume "snd (create_prepare env this cliOptions preset) = Inr st"
    from create_prepare_state[OF this] ceq have "st_packageManager st = chosen"
      by (metis prepared.select_convs(1))
    then show "list_all ?P (fst (create_finish env this st))" by (rule fin)
  qed
qed

lemma detect_fields:
  "loadModule (env\<lparr>hasYarn := y, hasPnpm3OrLater := p, saved_packageManager := s\<rparr>)
     = loadModule env"
  "inquirer_prompt (env\<lparr>hasYarn := y, hasPnpm3OrLater := p, saved_packageManager := s\<rparr>)
     = inquirer_prompt env"
  "saved_presets (env\<lparr>hasYarn := y, hasPnpm3OrLater := p, saved_packageManager := s\<rparr>)
     = saved_presets env"
  "loadRemotePreset (env\<lparr>hasYarn := y, hasPnpm3OrLater := p, saved_packageManager := s\<rparr>)
     = loadRemotePreset env"
  "interview_preset (env\<lparr>hasYarn := y, hasPnpm3OrLater := p, saved_packageManager := s\<rparr>)
     = interview_preset env"
  "execa (env\<lparr>hasYarn := y, hasPnpm3OrLater := p, saved_packageManager := s\<rparr>) = execa env"
  "writeFileTree (env\<lparr>hasYarn := y, hasPnpm3OrLater := p, saved_packageManager := s\<rparr>)
     = writeFileTree env"
  "pm_install (env\<lparr>hasYarn := y, hasPnpm3OrLater := p, saved_packageManager := s\<rparr>)
     = pm_install env"
  "new_Generator (env\<lparr>hasYarn := y, hasPnpm3OrLater := p, saved_packageManager := s\<rparr>)
     = new_Generator env"
  "hasGit (env\<lparr>hasYarn := y, hasPnpm3OrLater := p, saved_packageManager := s\<rparr>) = hasGit env"
  "isTestOrDebug (env\<lparr>hasYarn := y, hasPnpm3OrLater := p, saved_packageManager := s\<rparr>)
     = isTestOrDebug env"
  by simp_all

lemma resolvePlugin_detect:
  "resolvePlugin (env\<lparr>hasYarn := y, hasPnpm3OrLater := p, saved_packageManager := s\<rparr>)
     this raws pid
   = resolvePlugin env this raws pid"
  unfolding resolvePlugin_def detect_fields by (rule refl)

lemma resolvePlugins_loop_detect:
  "resolvePlugins_loop
     (env\<lparr>hasYarn := y, hasPnpm3OrLater := p, saved_packageManager := s\<rparr>) this raws ids acc
   = resolvePlugins_loop env this raws ids acc"
  by (induction ids arbitrary: acc) (simp_all add: resolvePlugin_detect)

lemma create_detect_irrelevant:
  assumes "select_packageManager
             (env\<lparr>hasYarn := y, hasPnpm3OrLater := p, saved_packageManager := s\<rparr>)
             (lookup_prop (if cliOptions = JUndefined then JObj [] else cliOptions)
                ''packageManager'')
           = select_packageManager env
             (lookup_prop (if cliOptions = JUndefined then JObj [] else cliOptions)
                ''packageManager'')"
  shows "create (env\<lparr>hasYarn := y, hasPnpm3OrLater := p, saved_packageManager := s\<rparr>)
           this cliOptions preset
         = create env this cliOptions preset"
proof -
  let ?env = "env\<lparr>hasYarn := y, hasPnpm3OrLater := p, saved_packageManager := s\<rparr>"
  let ?cli = "if cliOptions = JUndefined then JObj [] else cliOptions"
  have acq: "promptAndResolvePreset ?env None = promptAndResolvePreset env None"
    unfolding promptAndResolvePreset_def resolvePreset_def detect_fields by (rule refl)
  have plug: "\<And>raws. resolvePlugins ?env this raws = resolvePlugins env this raws"
    by (simp add: resolvePlugins_def resolvePlugins_loop_detect)
  have run: "\<And>command args. run ?env this command args = run env this command args"
    unfolding run_def detect_fields by (rule refl)
  have fin: "\<And>st. create_finish ?env this st = create_finish env this st"
    unfolding create_finish_def run detect_fields by (rule refl)
  have prep: "create_prepare ?env this cliOptions preset = create_prepare env this cliOptions preset"
  proof (cases "getprop ?cli ''packageManager''")
    case (Inl e)
    show ?thesis
      unfolding create_prepare_def Let_def Inl lift_io_def bind_io_Inl acq
      by (rule refl)
  next
    case (Inr cliPm)
    then have c: "cliPm = lookup_prop ?cli ''packageManager''"
      by (simp add: getprop_eq_Inr)
    have sel: "select_packageManager ?env cliPm = select_packageManager env cliPm"
      using assms c by simp
    show ?thesis
      unfolding create_prepare_def Let_def Inr lift_io_def bind_io_Inr fst_conv snd_conv
        acq plug run sel shouldInitGit_def detect_fields
      by (rule refl)
  qed
  show ?thesis
    unfolding create_def prep fin by (rule refl)
qed

section \<open>The concrete environment, evaluated\<close>

lemma ordinary_keys_example: "ordinary_keys (map fst example_plugins) = [''plugin-a'', ''plugin-b'']"
  using ordinary_keys_no_index[of "map fst example_plugins"]
  by (simp add: example_plugins_def is_array_index_plugin_a is_array_index_plugin_b)

lemma resolvePlugins_example:
  "resolvePlugins example_env example_creator (JObj example_plugins) =
     ([Log MsgBlank, Log (MsgPluginHeader ''plugin-b''), PluginPrompt (JsFun 2)],
      Inr [\<lparr>plugin_id = ''plugin-a'', plugin_apply = Some (JsFun 1), plugin_options = JObj []\<rparr>,
           \<lparr>plugin_id = ''plugin-b'', plugin_apply = None,
            plugin_options = JObj [(''answer'', JStr ''yes'')]\<rparr>])"
proof -
  have k: "Object_keys (JObj example_plugins) = Inr [''plugin-a'', ''plugin-b'']"
    using ordinary_keys_example by simp
  show ?thesis
    unfolding resolvePlugins_def k
    by (simp add: resolvePlugin_def io_simps example_env_def example_creator_def
          example_plugins_def lookup_prop_def object_prototype_names_def)
qed

lemma cloneDeep_below_id: "cloneDeep_below v = v"
proof (induction v rule: cloneDeep_below.induct)
  case (1 xs)
  then show ?case by (simp add: map_idI)
next
  case (2 m)
  have "map (map_prod (\<lambda>k. k) cloneDeep_below) m = m"
  proof (rule map_idI)
    fix x assume x: "x \<in> set m"
    obtain k v where kv: "x = (k, v)" by (cases x)
    from 2[OF x, of v] kv show "map_prod (\<lambda>k. k) cloneDeep_below x = x" by simp
  qed
  then show ?case by simp
qed simp_all

lemma cloneDeep_JObj: "cloneDeep (JObj m) = JObj m"
  by (simp add: cloneDeep_below_id)

lemma example_env_fields:
  "hasGit example_env" "\<not> hasYarn example_env" "\<not> hasPnpm3OrLater example_env"
  "isTestOrDebug example_env" "saved_packageManager example_env = JUndefined"
  "execa example_env command args cwd = None"
  "writeFileTree example_env dir files = None"
  "pm_install example_env dir pm = None"
  "new_Generator example_env dir p plugins =
     \<lparr>gen_pkg = p, gen_afterInvoke = [], gen_afterAnyInvoke = []\<rparr>"
  by (simp_all add: example_env_def)

lemma example_creator_fields:
  "cr_name example_creator = ''app''" "cr_context example_creator = ''/work/app''"
  "afterInvokeCbs example_creator =
     [Callback 1 None, Callback 2 (Some (HookError 2)), Callback 3 None]"
  "afterAnyInvokeCbs example_creator = [Callback 4 None]"
  by (simp_all add: example_creator_def)

lemma create_prepare_example:
  "create_prepare example_env example_creator JUndefined example_preset =
     (example_prepare_trace, Inr example_prepared)"
  unfolding create_prepare_def Let_def example_preset_def cloneDeep_JObj
  by (simp add: io_simps resolvePlugins_example lookup_prop_def object_prototype_names_def
        select_packageManager_def shouldInitGit_def run_def split_ws_git_init call_io_def
        example_env_fields example_creator_fields example_pkg_def example_prepare_trace_def
        example_prepared_def cloneDeep_below_id del: split_ws.simps cloneDeep_below.simps)

lemma resolvePlugins_example_gen:
  assumes "loadModule env = loadModule example_env"
    and "inquirer_prompt env = inquirer_prompt example_env"
  shows "resolvePlugins env this (JObj example_plugins) =
     ([Log MsgBlank, Log (MsgPluginHeader ''plugin-b''), PluginPrompt (JsFun 2)],
      Inr [\<lparr>plugin_id = ''plugin-a'', plugin_apply = Some (JsFun 1), plugin_options = JObj []\<rparr>,
           \<lparr>plugin_id = ''plugin-b'', plugin_apply = None,
            plugin_options = JObj [(''answer'', JStr ''yes'')]\<rparr>])"
proof -
  have k: "Object_keys (JObj example_plugins) = Inr [''plugin-a'', ''plugin-b'']"
    using ordinary_keys_example by simp
  show ?thesis
    unfolding resolvePlugins_def k
    by (simp add: resolvePlugin_def io_simps assms example_env_def
          example_plugins_def lookup_prop_def object_prototype_names_def)
qed

lemma create_prepare_example_gen:
  assumes "hasGit env" "\<not> hasYarn env" "\<not> hasPnpm3OrLater env" "isTestOrDebug env"
    and "saved_packageManager env = JUndefined"
    and "loadModule env = loadModule example_env"
    and "inquirer_prompt env = inquirer_prompt example_env"
    and "writeFileTree env = (\<lambda>dir files. None)"
    and "execa env ''git'' [''init''] ''/work/app'' = None"
    and "new_Generator env = new_Generator example_env"
    and "cr_name this = ''app''" "cr_context this = ''/work/app''"
    and "getprop (if cliOptions = JUndefined then JObj [] else cliOptions) ''packageManager''
           = Inr JUndefined"
  shows "create_prepare env this cliOptions example_preset =
     (example_prepare_trace,
      Inr (example_prepared\<lparr>st_afterInvokeCbs := afterInvokeCbs this,
                             st_afterAnyInvokeCbs := afterAnyInvokeCbs this\<rparr>))"
  unfolding create_prepare_def Let_def example_preset_def
  by (simp add: io_simps resolvePlugins_example_gen assms lookup_prop_def
        object_prototype_names_def
        select_packageManager_def shouldInitGit_def run_def split_ws_git_init call_io_def
        example_env_fields example_pkg_def example_prepare_trace_def
        example_prepared_def cloneDeep_below_id del: split_ws.simps cloneDeep_below.simps)

lemma create_prepare_commit_fails:
  "create_prepare example_env_commit_fails example_creator_ok JUndefined example_preset =
     (example_prepare_trace,
      Inr (example_prepared\<lparr>st_afterInvokeCbs := [Callback 1 None],
                             st_afterAnyInvokeCbs := [Callback 4 None]\<rparr>))"
proof -
  have "create_prepare example_env_commit_fails example_creator_ok JUndefined example_preset =
     (example_prepare_trace,
      Inr (example_prepared\<lparr>st_afterInvokeCbs := afterInvokeCbs example_creator_ok,
                             st_afterAnyInvokeCbs := afterAnyInvokeCbs example_creator_ok\<rparr>))"
    by (rule create_prepare_example_gen)
       (simp_all add: example_env_commit_fails_def example_creator_ok_def example_env_def
          example_creator_def lookup_prop_def object_prototype_names_def)
  then show ?thesis
    by (simp add: example_creator_ok_def)
qed

lemma create_init_fails:
  "create example_env_init_fails example_creator_ok JUndefined example_preset =
     ([ClearConsole, LogWithSpinner (MsgCreating ''/work/app''),
       WriteFileTree ''/work/app'' [(''package.json'', Json example_pkg)],
       LogWithSpinner MsgInitGit, Emit ''creation'' ''git-init'',
       Execa ''git'' [''init''] ''/work/app''], Inl (ExecError 1))"
  unfolding create_def create_prepare_def Let_def example_preset_def
  by (simp add: io_simps lookup_prop_def object_prototype_names_def
        select_packageManager_def shouldInitGit_def run_def split_ws_git_init call_io_def
        example_env_init_fails_def example_creator_ok_def example_env_def example_creator_def
        example_pkg_def cloneDeep_below_id del: split_ws.simps cloneDeep_below.simps)

lemma example_creator_ok_fields:
  "cr_name example_creator_ok = ''app''" "cr_context example_creator_ok = ''/work/app''"
  "afterInvokeCbs example_creator_ok = [Callback 1 None]"
  "afterAnyInvokeCbs example_creator_ok = [Callback 4 None]"
  by (simp_all add: example_creator_ok_def example_creator_def)

lemma create_example_ok:
  assumes "getprop (if cliOptions = JUndefined then JObj [] else cliOptions) ''packageManager''
           = Inr JUndefined"
  shows "create example_env example_creator_ok cliOptions example_preset =
           (example_prepare_trace @ example_finish_trace True, Inr ())"
proof -
  let ?st = "example_prepared\<lparr>st_afterInvokeCbs := [Callback 1 None],
                             st_afterAnyInvokeCbs := [Callback 4 None]\<rparr>"
  have "create_prepare example_env example_creator_ok cliOptions example_preset =
     (example_prepare_trace,
      Inr (example_prepared\<lparr>st_afterInvokeCbs := afterInvokeCbs example_creator_ok,
                             st_afterAnyInvokeCbs := afterAnyInvokeCbs example_creator_ok\<rparr>))"
    by (rule create_prepare_example_gen)
       (simp_all add: example_env_fields example_creator_ok_fields assms,
        simp_all add: example_env_def)
  then have prep: "create_prepare example_env example_creator_ok cliOptions example_preset =
     (example_prepare_trace, Inr ?st)"
    by (simp add: example_creator_ok_fields)
  have hooks: "run_hooks (st_afterInvokeCbs ?st) (st_afterAnyInvokeCbs ?st) =
      ([LogWithSpinner MsgHooks, HookStart 1, HookEnd 1, HookStart 4, HookEnd 4], Inr ())"
    by (simp add: run_hooks_def io_simps)
  have fin: "create_finish example_env example_creator_ok ?st =
      ([StopSpinner, Log MsgBlank, LogWithSpinner MsgReadme,
        WriteFileTree ''/work/app'' [(''README.md'', Readme example_pkg (JStr ''npm''))],
        Execa ''git'' [''add'', ''-A''] ''/work/app'',
        Execa ''git'' [''commit'', ''-m'', ''init''] ''/work/app'',
        StopSpinner, Log MsgBlank, Log (MsgSuccess ''app''), Log MsgBlank, PrintExitLogs],
       Inr ())"
    unfolding create_finish_def
    by (simp add: io_simps catch_io_Inl catch_io_Inr run_def split_ws_git_add call_io_def
          example_env_fields example_creator_ok_fields example_prepared_def
          del: split_ws.simps)
  show ?thesis
    unfolding create_def prep bind_io_Inr hooks then_io_Inr fin
    by (simp add: example_finish_trace_def)
qed

lemma example_prepare_trace_events:
  "Emit ''creation'' ''plugins-install'' \<in> set example_prepare_trace"
  "Execa ''git'' [''init''] ''/work/app'' \<in> set example_prepare_trace"
  by (simp_all add: example_prepare_trace_def)

lemma resolvePreset_mine:
  "resolvePreset example_env (interview_preset example_env) JUndefined =
     ([ConsoleLog], Inr (JObj [(''plugins'', JObj [(''plugin-a'', JObj [])])]))"
  by (simp add: resolvePreset_def js_in_def io_simps example_env_def lookup_prop_def)

lemma resolvePreset_webpack:
  "resolvePreset example_env_webpack (interview_preset example_env_webpack) JUndefined =
     ([ConsoleLog], Inr JUndefined)"
  by (simp add: resolvePreset_def js_in_def io_simps example_env_webpack_def example_env_def
        object_prototype_names_def)

lemma show_nat_0: "show_nat 0 = ''0''"
  by (simp add: digit_char_def char_of_def bit_simps)

lemma is_array_index_0: "is_array_index ''0''"
  by (simp add: is_array_index_def is_digit_def nat_of_digits_def)

lemma resolvePlugins_malformed:
  "resolvePlugins example_env example_creator_ok (JStr ''x'') =
     ([], Inr [\<lparr>plugin_id = ''0'', plugin_apply = None, plugin_options = JStr ''x''\<rparr>])"
proof -
  have k: "Object_keys (JStr ''x'') = Inr [''0'']"
    by (simp add: ordinary_keys_def show_nat_0 is_array_index_0 del: show_nat.simps)
  show ?thesis
    unfolding resolvePlugins_def k
    by (simp add: resolvePlugin_def io_simps example_env_def lookup_prop_def show_nat_0
          object_prototype_names_def del: show_nat.simps)
qed

lemma create_example_readme:
  "WriteFileTree ''/work/app'' [(''README.md'', Readme example_pkg (JStr ''npm''))]
     \<in> set (fst (create example_env example_creator_ok JUndefined example_preset))"
proof -
  have "create example_env example_creator_ok JUndefined example_preset =
           (example_prepare_trace @ example_finish_trace True, Inr ())"
    by (rule create_example_ok) (simp add: lookup_prop_def object_prototype_names_def)
  then show ?thesis
    by (simp add: example_finish_trace_def)
qed

section \<open>Claims about plugin resolution\<close>

text \<open>
  C1 (as amended). For every raw-plugins object \<open>m\<close>, \<^verbatim>\<open>resolvePlugins\<close> returns, without
  throwing, exactly one entry per key of \<open>m\<close>, in the order of \<^verbatim>\<open>Object.keys\<close>: keys
  that are array indices first, in ascending numeric order, then the other keys in
  insertion order. When no key is an array index this is the insertion order. Each
  entry carries the plugin id, the loaded generator module (\<open>None\<close>: the no-op) and
  the options computed by the loop; the options are an object whenever the raw options
  of the key are an object or falsy.
\<close>

theorem resolvePlugins_one_entry_per_key:
  "\<exists>t ps. resolvePlugins env this (JObj m) = (t, Inr ps)
     \<and> map plugin_id ps = ordinary_keys (map fst m)
     \<and> mset (map plugin_id ps) = mset (map fst m)
     \<and> ((\<forall>k \<in> set (map fst m). \<not> is_array_index k) \<longrightarrow> map plugin_id ps = map fst m)
     \<and> (\<forall>p \<in> set ps.
          plugin_apply p = loadModule env (plugin_id p @ ''/generator'') (cr_context this)
        \<and> plugin_options p = plugin_options_of env this (JObj m) (plugin_id p)
        \<and> ((\<not> truthy (lookup_prop (JObj m) (plugin_id p))
               \<or> is_object (lookup_prop (JObj m) (plugin_id p)))
             \<longrightarrow> is_object (plugin_options p)))"
proof -
  obtain t where t:
    "resolvePlugins env this (JObj m) =
       (t, Inr (map (plugin_entry env this (JObj m)) (ordinary_keys (map fst m))))"
    using resolvePlugins_entries by blast
  define ps where "ps = map (plugin_entry env this (JObj m)) (ordinary_keys (map fst m))"
  have ids: "map plugin_id ps = ordinary_keys (map fst m)"
    by (simp add: ps_def plugin_entry_def comp_def)
  have per_key: "mset (map plugin_id ps) = mset (map fst m)"
    by (simp only: ids mset_ordinary_keys)
  have order: "(\<forall>k \<in> set (map fst m). \<not> is_array_index k) \<longrightarrow> map plugin_id ps = map fst m"
    using ids ordinary_keys_no_index[of "map fst m"] by simp
  have entries: "\<forall>p \<in> set ps.
          plugin_apply p = loadModule env (plugin_id p @ ''/generator'') (cr_context this)
        \<and> plugin_options p = plugin_options_of env this (JObj m) (plugin_id p)
        \<and> ((\<not> truthy (lookup_prop (JObj m) (plugin_id p))
               \<or> is_object (lookup_prop (JObj m) (plugin_id p)))
             \<longrightarrow> is_object (plugin_options p))"
    using plugin_options_of_object[of "JObj m" _ env this]
    by (auto simp: ps_def plugin_entry_def)
  from t ids per_key order entries show ?thesis
    unfolding ps_def[symmetric] by blast
qed

theorem resolvePlugins_one_entry_per_key_witness:
  "list_all (\<lambda>k. \<not> is_array_index k) (map fst example_plugins)
   \<and> list_all (\<lambda>v. is_object v) (map snd example_plugins)
   \<and> snd (resolvePlugins example_env example_creator (JObj example_plugins)) =
       Inr [\<lparr>plugin_id = ''plugin-a'', plugin_apply = Some (JsFun 1), plugin_options = JObj []\<rparr>,
            \<lparr>plugin_id = ''plugin-b'', plugin_apply = None,
             plugin_options = JObj [(''answer'', JStr ''yes'')]\<rparr>]"
proof -
  have noidx: "\<forall>k \<in> set (map fst example_plugins). \<not> is_array_index k"
    by (simp add: example_plugins_def is_array_index_plugin_a is_array_index_plugin_b)
  obtain t ps where r: "resolvePlugins example_env example_creator (JObj example_plugins) = (t, Inr ps)"
    and ids: "map plugin_id ps = map fst example_plugins"
    and entries: "\<forall>p \<in> set ps.
          plugin_apply p = loadModule example_env (plugin_id p @ ''/generator'') (cr_context example_creator)
        \<and> plugin_options p = plugin_options_of example_env example_creator (JObj example_plugins) (plugin_id p)
        \<and> ((\<not> truthy (lookup_prop (JObj example_plugins) (plugin_id p))
               \<or> is_object (lookup_prop (JObj example_plugins) (plugin_id p)))
             \<longrightarrow> is_object (plugin_options p))"
    using resolvePlugins_one_entry_per_key[of example_env example_creator example_plugins] noidx
    by blast
  from ids obtain p1 p2 where ps: "ps = [p1, p2]"
    and i1: "plugin_id p1 = ''plugin-a''" and i2: "plugin_id p2 = ''plugin-b''"
    by (auto simp: example_plugins_def map_eq_Cons_conv)
  have a1: "plugin_apply p1 = Some (JsFun 1)" "plugin_options p1 = JObj []"
    using entries ps i1
    by (simp_all add: example_env_def example_creator_def example_plugins_def
          plugin_options_of_def lookup_prop_def object_prototype_names_def)
  have a2: "plugin_apply p2 = None" "plugin_options p2 = JObj [(''answer'', JStr ''yes'')]"
    using entries ps i2
    by (simp_all add: example_env_def example_creator_def example_plugins_def
          plugin_options_of_def lookup_prop_def object_prototype_names_def)
  have "p1 = \<lparr>plugin_id = ''plugin-a'', plugin_apply = Some (JsFun 1), plugin_options = JObj []\<rparr>"
    using i1 a1 by (cases p1) simp
  moreover have "p2 = \<lparr>plugin_id = ''plugin-b'', plugin_apply = None,
             plugin_options = JObj [(''answer'', JStr ''yes'')]\<rparr>"
    using i2 a2 by (cases p2) simp
  ultimately show ?thesis
    using r ps noidx by (simp add: example_plugins_def list_all_iff)
qed

text \<open>
  C1 as stated fails: the keys \<open>b\<close>, \<open>1\<close> inserted in this order come out as \<open>1\<close>,
  \<open>b\<close>, and the raw options \<^verbatim>\<open>true\<close> of \<open>b\<close> are handed on as they are, not as a
  mapping.
\<close>

theorem resolvePlugins_key_order_counterexample:
  "snd (resolvePlugins example_env example_creator (JObj [(''b'', JBool True), (''1'', JObj [])])) =
     Inr [\<lparr>plugin_id = ''1'', plugin_apply = None, plugin_options = JObj []\<rparr>,
          \<lparr>plugin_id = ''b'', plugin_apply = None, plugin_options = JBool True\<rparr>]"
proof -
  have k: "ordinary_keys [''b'', ''1''] = [''1'', ''b'']"
    by (simp add: ordinary_keys_def is_array_index_def is_digit_def nat_of_digits_def)
  show ?thesis
    by (simp add: resolvePlugins_def k resolvePlugin_def io_simps example_env_def
          example_creator_def lookup_prop_def object_prototype_names_def)
qed



section \<open>Claims about the preset store\<close>

text \<open>
  C10. \<^verbatim>\<open>getPresets\<close> merges the saved presets with the built-in default presets: a
  name that the defaults have maps to the built-in preset, also when a saved preset has
  the same name; any other name maps to what the saved presets have for it.
\<close>

theorem getPresets_defaults_override:
  assumes "distinct (map fst (defaults_presets env))"
    and "distinct (map fst (case saved_presets env of Some s \<Rightarrow> s | None \<Rightarrow> []))"
  shows "map_of (getPresets env) name =
           (case map_of (defaults_presets env) name of
              Some d \<Rightarrow> Some d
            | None \<Rightarrow> map_of (case saved_presets env of Some s \<Rightarrow> s | None \<Rightarrow> []) name)"
proof -
  have "map_of (Object_assign [] (saved_presets env)) =
          map_of (case saved_presets env of Some s \<Rightarrow> s | None \<Rightarrow> [])"
    using assms(2) by (cases "saved_presets env") (simp_all add: Object_assign_def map_of_foldl_assign_prop)
  then have "map_of (getPresets env) =
          map_of (case saved_presets env of Some s \<Rightarrow> s | None \<Rightarrow> []) ++ map_of (defaults_presets env)"
    using assms(1) by (simp add: getPresets_def Object_assign_def map_of_foldl_assign_prop)
  then show ?thesis
    by (simp add: map_add_def)
qed

theorem getPresets_defaults_override_witness:
  "distinct (map fst (defaults_presets example_env))
   \<and> distinct (map fst (case saved_presets example_env of Some s \<Rightarrow> s | None \<Rightarrow> []))
   \<and> map_of (case saved_presets example_env of Some s \<Rightarrow> s | None \<Rightarrow> []) ''default''
        = Some (JObj [(''plugins'', JObj [(''plugin-b'', JObj [])])])
   \<and> map_of (getPresets example_env) ''default'' = Some (JObj [(''plugins'', JObj [])])
   \<and> map_of (getPresets example_env) ''mine''
        = Some (JObj [(''plugins'', JObj [(''plugin-a'', JObj [])])])"
proof -
  have h1: "distinct (map fst (defaults_presets example_env))"
    by (simp add: example_env_def)
  have h2: "distinct (map fst (case saved_presets example_env of Some s \<Rightarrow> s | None \<Rightarrow> []))"
    by (simp add: example_env_def)
  show ?thesis
    using getPresets_defaults_override[OF h1 h2, of "''default''"]
      getPresets_defaults_override[OF h1 h2, of "''mine''"] h1 h2
    by (simp add: example_env_def)
qed

text \<open>
  C7 (as amended). For every name that is neither a key of the saved-presets mapping, nor
  the name of a property that the mapping inherits from \<^verbatim>\<open>Object.prototype\<close>, nor
  contains \<open>/\<close>, \<^verbatim>\<open>resolvePreset\<close> returns \<^verbatim>\<open>undefined\<close> without signalling an error
  and without any message beyond its \<^verbatim>\<open>console.log\<close>. For such a name that contains
  \<open>/\<close> the remote preset is fetched: a fetch error is rethrown to the caller after the
  spinner is stopped and the failure is logged, and a fetched preset is returned after
  the spinner is stopped.
\<close>

theorem resolvePreset_unknown_name:
  assumes "name \<notin> set (map fst (case saved_presets env of Some s \<Rightarrow> s | None \<Rightarrow> []))"
    and "name \<notin> set object_prototype_names"
  shows "(CHR ''/'' \<notin> set name \<longrightarrow>
            resolvePreset env name clone = ([ConsoleLog], Inr JUndefined))
       \<and> (CHR ''/'' \<in> set name \<longrightarrow> loadRemotePreset env name clone = Inl e \<longrightarrow>
            resolvePreset env name clone =
              ([ConsoleLog, LogWithSpinner (MsgFetching name), LoadRemotePreset name clone,
                StopSpinner, ErrorLog (MsgFetchFailed name)], Inl e))
       \<and> (CHR ''/'' \<in> set name \<longrightarrow> loadRemotePreset env name clone = Inr preset \<longrightarrow>
            resolvePreset env name clone =
              ([ConsoleLog, LogWithSpinner (MsgFetching name), LoadRemotePreset name clone,
                StopSpinner], Inr preset))"
  using assms
  by (simp add: resolvePreset_def js_in_def io_simps catch_io_Inl catch_io_Inr)

theorem resolvePreset_unknown_name_witness:
  "''webpack'' \<notin> set (map fst (case saved_presets example_env of Some s \<Rightarrow> s | None \<Rightarrow> []))
   \<and> ''webpack'' \<notin> set object_prototype_names
   \<and> CHR ''/'' \<notin> set ''webpack''
   \<and> resolvePreset example_env ''webpack'' JUndefined = ([ConsoleLog], Inr JUndefined)
   \<and> ''user/repo'' \<notin> set (map fst (case saved_presets example_env of Some s \<Rightarrow> s | None \<Rightarrow> []))
   \<and> ''user/repo'' \<notin> set object_prototype_names
   \<and> CHR ''/'' \<in> set ''user/repo''
   \<and> loadRemotePreset example_env ''user/repo'' JUndefined = Inl (FetchError 1)
   \<and> resolvePreset example_env ''user/repo'' JUndefined =
        ([ConsoleLog, LogWithSpinner (MsgFetching ''user/repo''),
          LoadRemotePreset ''user/repo'' JUndefined, StopSpinner,
          ErrorLog (MsgFetchFailed ''user/repo'')], Inl (FetchError 1))"
proof -
  have a1: "''webpack'' \<notin> set (map fst (case saved_presets example_env of Some s \<Rightarrow> s | None \<Rightarrow> []))"
    by (simp add: example_env_def)
  have a2: "''webpack'' \<notin> set object_prototype_names"
    by (simp add: object_prototype_names_def)
  have b1: "''user/repo'' \<notin> set (map fst (case saved_presets example_env of Some s \<Rightarrow> s | None \<Rightarrow> []))"
    by (simp add: example_env_def)
  have b2: "''user/repo'' \<notin> set object_prototype_names"
    by (simp add: object_prototype_names_def)
  have b3: "loadRemotePreset example_env ''user/repo'' JUndefined = Inl (FetchError 1)"
    by (simp add: example_env_def)
  show ?thesis
    using resolvePreset_unknown_name[OF a1 a2, of JUndefined]
      resolvePreset_unknown_name[OF b1 b2, of JUndefined "FetchError 1"] a1 a2 b1 b2 b3
    by simp
qed

text \<open>
  C7 as stated fails: \<open>toString\<close> is no key of the saved presets and has no \<open>/\<close>, yet
  \<^verbatim>\<open>'toString' in savedPresets\<close> holds and the inherited function is returned.
\<close>

theorem resolvePreset_inherited_name_counterexample:
  "''toString'' \<notin> set (map fst (case saved_presets example_env of Some s \<Rightarrow> s | None \<Rightarrow> []))
   \<and> CHR ''/'' \<notin> set ''toString''
   \<and> resolvePreset example_env ''toString'' JUndefined = ([ConsoleLog], Inr (JBuiltin ''toString''))"
  by (simp add: resolvePreset_def js_in_def io_simps example_env_def lookup_prop_def
        object_prototype_names_def)

section \<open>Claims about the creation workflow\<close>

text \<open>
  C3. Once \<^verbatim>\<open>create\<close> has come to the hook execution, the entries of
  \<^verbatim>\<open>afterInvokeCbs\<close> run in insertion order, then those of \<^verbatim>\<open>afterAnyInvokeCbs\<close> in
  insertion order, each to completion before the next starts; when no hook throws,
  \<^verbatim>\<open>create\<close> goes on with the README. If the hook at position \<open>k\<close> is the first to
  throw, the trace ends with the start of that hook: no hook at a later position runs,
  nothing else happens, and the error leaves \<^verbatim>\<open>create\<close>.
\<close>

theorem create_hooks_in_order:
  assumes "create_prepare env this cliOptions preset = (t0, Inr st)"
  shows "((\<forall>cb \<in> set (st_afterInvokeCbs st @ st_afterAnyInvokeCbs st). cb_error cb = None) \<longrightarrow>
            create env this cliOptions preset =
              (t0 @ LogWithSpinner MsgHooks
                  # concat (map cb_events (st_afterInvokeCbs st @ st_afterAnyInvokeCbs st))
                  @ fst (create_finish env this st),
               snd (create_finish env this st)))
       \<and> (\<forall>k e. k < length (st_afterInvokeCbs st @ st_afterAnyInvokeCbs st)
              \<and> cb_error ((st_afterInvokeCbs st @ st_afterAnyInvokeCbs st) ! k) = Some e
              \<and> (\<forall>j < k. cb_error ((st_afterInvokeCbs st @ st_afterAnyInvokeCbs st) ! j) = None)
            \<longrightarrow> create env this cliOptions preset =
              (t0 @ LogWithSpinner MsgHooks
                  # concat (map cb_events
                      (take k (st_afterInvokeCbs st @ st_afterAnyInvokeCbs st)))
                  @ [HookStart (cb_id ((st_afterInvokeCbs st @ st_afterAnyInvokeCbs st) ! k))],
               Inl e))"
proof (intro conjI impI allI)
  assume ok: "\<forall>cb \<in> set (st_afterInvokeCbs st @ st_afterAnyInvokeCbs st). cb_error cb = None"
  show "create env this cliOptions preset =
              (t0 @ LogWithSpinner MsgHooks
                  # concat (map cb_events (st_afterInvokeCbs st @ st_afterAnyInvokeCbs st))
                  @ fst (create_finish env this st),
               snd (create_finish env this st))"
    unfolding create_def assms bind_io_Inr run_hooks_ok[OF ok] then_io_Inr
    by simp
next
  fix k e
  assume h: "k < length (st_afterInvokeCbs st @ st_afterAnyInvokeCbs st)
              \<and> cb_error ((st_afterInvokeCbs st @ st_afterAnyInvokeCbs st) ! k) = Some e
              \<and> (\<forall>j < k. cb_error ((st_afterInvokeCbs st @ st_afterAnyInvokeCbs st) ! j) = None)"
  then have f: "run_hooks (st_afterInvokeCbs st) (st_afterAnyInvokeCbs st) =
           (LogWithSpinner MsgHooks # concat (map cb_events (take k (st_afterInvokeCbs st @ st_afterAnyInvokeCbs st)))
              @ [HookStart (cb_id ((st_afterInvokeCbs st @ st_afterAnyInvokeCbs st) ! k))], Inl e)"
    using run_hooks_fail[of k "st_afterInvokeCbs st" "st_afterAnyInvokeCbs st" e] by blast
  show "create env this cliOptions preset =
              (t0 @ LogWithSpinner MsgHooks
                  # concat (map cb_events
                      (take k (st_afterInvokeCbs st @ st_afterAnyInvokeCbs st)))
                  @ [HookStart (cb_id ((st_afterInvokeCbs st @ st_afterAnyInvokeCbs st) ! k))],
               Inl e)"
    unfolding create_def assms bind_io_Inr f then_io_Inl
    by simp
qed

theorem create_hooks_in_order_witness:
  "create_prepare example_env example_creator JUndefined example_preset =
     (example_prepare_trace, Inr example_prepared)
   \<and> cb_error ((st_afterInvokeCbs example_prepared @ st_afterAnyInvokeCbs example_prepared) ! 1)
       = Some (HookError 2)
   \<and> cb_error ((st_afterInvokeCbs example_prepared @ st_afterAnyInvokeCbs example_prepared) ! 0)
       = None
   \<and> create example_env example_creator JUndefined example_preset =
       (example_prepare_trace @ [LogWithSpinner MsgHooks, HookStart 1, HookEnd 1, HookStart 2],
        Inl (HookError 2))"
proof -
  have k: "(1::nat) < length (st_afterInvokeCbs example_prepared @ st_afterAnyInvokeCbs example_prepared)
    \<and> cb_error ((st_afterInvokeCbs example_prepared @ st_afterAnyInvokeCbs example_prepared) ! 1)
       = Some (HookError 2)
    \<and> (\<forall>j < 1. cb_error ((st_afterInvokeCbs example_prepared @ st_afterAnyInvokeCbs example_prepared) ! j) = None)"
    by (simp add: example_prepared_def)
  from create_hooks_in_order[OF create_prepare_example] k
  have "create example_env example_creator JUndefined example_preset =
      (example_prepare_trace @ LogWithSpinner MsgHooks
          # concat (map cb_events
              (take 1 (st_afterInvokeCbs example_prepared @ st_afterAnyInvokeCbs example_prepared)))
          @ [HookStart (cb_id ((st_afterInvokeCbs example_prepared @ st_afterAnyInvokeCbs example_prepared) ! 1))],
       Inl (HookError 2))"
    by blast
  then show ?thesis
    using create_prepare_example k
    by (simp add: example_prepared_def cb_events_def)
qed

text \<open>
  C4. For every run that comes to the commit with git initialized (the steps before it
  succeeded) and in which \<^verbatim>\<open>git commit\<close> throws, the error is caught: \<^verbatim>\<open>create\<close>
  completes normally, reports success and emits the warning. It is the only tolerated
  failure: any other process, file write or install recorded in the trace of a run that
  failed makes \<^verbatim>\<open>create\<close> throw that very error.
\<close>

theorem create_commit_failure_tolerated:
  "(create_prepare env this cliOptions preset = (t0, Inr st)
      \<and> (\<forall>cb \<in> set (st_afterInvokeCbs st @ st_afterAnyInvokeCbs st). cb_error cb = None)
      \<and> writeFileTree env (cr_context this)
           [(''README.md'', Readme (gen_pkg (st_generator st)) (st_packageManager st))] = None
      \<and> hasGit env
      \<and> execa env ''git'' [''add'', ''-A''] (cr_context this) = None
      \<and> execa env ''git'' [''commit'', ''-m'', ''init''] (cr_context this) = Some e
    \<longrightarrow> (\<exists>t. create env this cliOptions preset =
           (t @ [Execa ''git'' [''add'', ''-A''] (cr_context this),
                 Execa ''git'' [''commit'', ''-m'', ''init''] (cr_context this),
                 StopSpinner, Log MsgBlank, Log (MsgSuccess (cr_name this)), Log MsgBlank,
                 Warn MsgCommitSkipped, PrintExitLogs],
            Inr ())))
   \<and> (\<forall>ev e'. ev \<in> set (fst (create env this cliOptions preset))
          \<and> ev_error env ev = Some e'
          \<and> ev \<noteq> Execa ''git'' [''commit'', ''-m'', ''init''] (cr_context this)
        \<longrightarrow> snd (create env this cliOptions preset) = Inl e')"
proof (intro conjI impI allI)
  assume h: "create_prepare env this cliOptions preset = (t0, Inr st)
      \<and> (\<forall>cb \<in> set (st_afterInvokeCbs st @ st_afterAnyInvokeCbs st). cb_error cb = None)
      \<and> writeFileTree env (cr_context this)
           [(''README.md'', Readme (gen_pkg (st_generator st)) (st_packageManager st))] = None
      \<and> hasGit env
      \<and> execa env ''git'' [''add'', ''-A''] (cr_context this) = None
      \<and> execa env ''git'' [''commit'', ''-m'', ''init''] (cr_context this) = Some e"
  then have prep: "create_prepare env this cliOptions preset = (t0, Inr st)"
    and hooks: "\<forall>cb \<in> set (st_afterInvokeCbs st @ st_afterAnyInvokeCbs st). cb_error cb = None"
    by blast+
  from prep have "snd (create_prepare env this cliOptions preset) = Inr st" by simp
  from create_prepare_state[OF this] h have git: "st_shouldInitGit st"
    by (metis prepared.select_convs(2))
  have fin: "create_finish env this st =
          ([StopSpinner, Log MsgBlank, LogWithSpinner MsgReadme,
            WriteFileTree (cr_context this)
              [(''README.md'', Readme (gen_pkg (st_generator st)) (st_packageManager st))],
            Execa ''git'' [''add'', ''-A''] (cr_context this),
            Execa ''git'' [''commit'', ''-m'', ''init''] (cr_context this),
            StopSpinner, Log MsgBlank, Log (MsgSuccess (cr_name this)), Log MsgBlank,
            Warn MsgCommitSkipped, PrintExitLogs], Inr ())"
    unfolding create_finish_def
    using h git
    by (simp add: io_simps catch_io_Inl catch_io_Inr run_def split_ws_git_add call_io_def
          del: split_ws.simps)
  have "create env this cliOptions preset =
          (t0 @ LogWithSpinner MsgHooks
              # concat (map cb_events (st_afterInvokeCbs st @ st_afterAnyInvokeCbs st))
              @ fst (create_finish env this st), snd (create_finish env this st))"
    unfolding create_def prep bind_io_Inr run_hooks_ok[OF hooks] then_io_Inr
    by simp
  then show "\<exists>t. create env this cliOptions preset =
           (t @ [Execa ''git'' [''add'', ''-A''] (cr_context this),
                 Execa ''git'' [''commit'', ''-m'', ''init''] (cr_context this),
                 StopSpinner, Log MsgBlank, Log (MsgSuccess (cr_name this)), Log MsgBlank,
                 Warn MsgCommitSkipped, PrintExitLogs],
            Inr ())"
    unfolding fin fst_conv snd_conv
    by (intro exI[of _ "t0 @ LogWithSpinner MsgHooks
              # concat (map cb_events (st_afterInvokeCbs st @ st_afterAnyInvokeCbs st))
              @ [StopSpinner, Log MsgBlank, LogWithSpinner MsgReadme,
            WriteFileTree (cr_context this)
              [(''README.md'', Readme (gen_pkg (st_generator st)) (st_packageManager st))]]"]) simp
next
  fix ev e'
  assume h: "ev \<in> set (fst (create env this cliOptions preset))
          \<and> ev_error env ev = Some e'
          \<and> ev \<noteq> Execa ''git'' [''commit'', ''-m'', ''init''] (cr_context this)"
  then obtain t1 t2 where "fst (create env this cliOptions preset) = t1 @ ev # t2"
    by (meson split_list)
  with h fail_stop_create[of env this cliOptions preset]
  show "snd (create env this cliOptions preset) = Inl e'"
    unfolding fail_stop_def by blast
qed

theorem create_commit_failure_tolerated_witness:
  "execa example_env_commit_fails ''git'' [''commit'', ''-m'', ''init''] ''/work/app''
     = Some (ExecError 128)
   \<and> snd (create example_env_commit_fails example_creator_ok JUndefined example_preset) = Inr ()
   \<and> Warn MsgCommitSkipped
       \<in> set (fst (create example_env_commit_fails example_creator_ok JUndefined example_preset))
   \<and> Log (MsgSuccess ''app'')
       \<in> set (fst (create example_env_commit_fails example_creator_ok JUndefined example_preset))
   \<and> Execa ''git'' [''init''] ''/work/app''
       \<in> set (fst (create example_env_init_fails example_creator_ok JUndefined example_preset))
   \<and> ev_error example_env_init_fails (Execa ''git'' [''init''] ''/work/app'') = Some (ExecError 1)
   \<and> snd (create example_env_init_fails example_creator_ok JUndefined example_preset)
       = Inl (ExecError 1)"
proof -
  let ?st = "example_prepared\<lparr>st_afterInvokeCbs := [Callback 1 None],
                             st_afterAnyInvokeCbs := [Callback 4 None]\<rparr>"
  have commit: "execa example_env_commit_fails ''git'' [''commit'', ''-m'', ''init'']
                  (cr_context example_creator_ok) = Some (ExecError 128)"
    by (simp add: example_env_commit_fails_def)
  have ctx: "cr_context example_creator_ok = ''/work/app''"
    and nm: "cr_name example_creator_ok = ''app''"
    by (simp_all add: example_creator_ok_def example_creator_def)
  have hyps: "create_prepare example_env_commit_fails example_creator_ok JUndefined example_preset
        = (example_prepare_trace, Inr ?st)
      \<and> (\<forall>cb \<in> set (st_afterInvokeCbs ?st @ st_afterAnyInvokeCbs ?st). cb_error cb = None)
      \<and> writeFileTree example_env_commit_fails (cr_context example_creator_ok)
           [(''README.md'', Readme (gen_pkg (st_generator ?st)) (st_packageManager ?st))] = None
      \<and> hasGit example_env_commit_fails
      \<and> execa example_env_commit_fails ''git'' [''add'', ''-A''] (cr_context example_creator_ok) = None
      \<and> execa example_env_commit_fails ''git'' [''commit'', ''-m'', ''init'']
           (cr_context example_creator_ok) = Some (ExecError 128)"
    using create_prepare_commit_fails
    by (simp add: example_env_commit_fails_def example_env_def)
  have init: "Execa ''git'' [''init''] ''/work/app''
       \<in> set (fst (create example_env_init_fails example_creator_ok JUndefined example_preset))
     \<and> ev_error example_env_init_fails (Execa ''git'' [''init''] ''/work/app'') = Some (ExecError 1)
     \<and> Execa ''git'' [''init''] ''/work/app''
         \<noteq> Execa ''git'' [''commit'', ''-m'', ''init''] (cr_context example_creator_ok)"
  proof -
    have "ev_error example_env_init_fails (Execa ''git'' [''init''] ''/work/app'') = Some (ExecError 1)"
      by (simp add: example_env_init_fails_def)
    then show ?thesis
      by (simp add: create_init_fails)
  qed
  note thm1 = create_commit_failure_tolerated[of example_env_commit_fails example_creator_ok
      JUndefined example_preset example_prepare_trace ?st "ExecError 128", THEN conjunct1,
      rule_format, OF hyps]
  note thm2 = create_commit_failure_tolerated[of example_env_init_fails example_creator_ok
      JUndefined example_preset, THEN conjunct2, rule_format, OF init]
  from thm1 obtain t where
    "create example_env_commit_fails example_creator_ok JUndefined example_preset =
       (t @ [Execa ''git'' [''add'', ''-A''] (cr_context example_creator_ok),
             Execa ''git'' [''commit'', ''-m'', ''init''] (cr_context example_creator_ok),
             StopSpinner, Log MsgBlank, Log (MsgSuccess (cr_name example_creator_ok)),
             Log MsgBlank, Warn MsgCommitSkipped, PrintExitLogs], Inr ())"
    by blast
  then show ?thesis
    using thm2 init commit by (simp add: ctx nm)
qed

text \<open>
  C8 (as amended). \<^verbatim>\<open>create\<close> initializes a git repository exactly when version-control
  tooling is detected on the host, whatever the caller's options are: with tooling, every
  run that gets to the plugin phase has emitted the \<open>creation\<close> event \<open>git-init\<close> and
  run \<^verbatim>\<open>git init\<close>, and every run that completes has run \<^verbatim>\<open>git add -A\<close> and
  \<^verbatim>\<open>git commit\<close>; without tooling, no \<open>creation\<close> event with tag \<open>git-init\<close> is
  emitted and no process at all is run: no init, no add, no commit.
\<close>

theorem create_git_init_iff_hasGit:
  "(\<not> hasGit env \<longrightarrow>
      list_all (\<lambda>ev. \<not> is_Execa ev \<and> ev \<noteq> Emit ''creation'' ''git-init'')
        (fst (create env this cliOptions preset)))
   \<and> (hasGit env \<and> Emit ''creation'' ''plugins-install''
                      \<in> set (fst (create env this cliOptions preset)) \<longrightarrow>
        Emit ''creation'' ''git-init'' \<in> set (fst (create env this cliOptions preset))
        \<and> Execa ''git'' [''init''] (cr_context this)
            \<in> set (fst (create env this cliOptions preset)))
   \<and> (hasGit env \<and> snd (create env this cliOptions preset) = Inr () \<longrightarrow>
        Execa ''git'' [''add'', ''-A''] (cr_context this)
            \<in> set (fst (create env this cliOptions preset))
        \<and> Execa ''git'' [''commit'', ''-m'', ''init''] (cr_context this)
            \<in> set (fst (create env this cliOptions preset)))"
proof (intro conjI impI)
  assume "\<not> hasGit env"
  then show "list_all (\<lambda>ev. \<not> is_Execa ev \<and> ev \<noteq> Emit ''creation'' ''git-init'')
        (fst (create env this cliOptions preset))"
    by (rule create_no_git_events)
next
  assume h: "hasGit env \<and> Emit ''creation'' ''plugins-install''
                      \<in> set (fst (create env this cliOptions preset))"
  have "Emit ''creation'' ''git-init'' \<in> set (fst (create_prepare env this cliOptions preset))
       \<and> Execa ''git'' [''init''] (cr_context this)
           \<in> set (fst (create_prepare env this cliOptions preset))"
  proof (cases "snd (create_prepare env this cliOptions preset)")
    case (Inl e)
    with h have "Emit ''creation'' ''plugins-install''
        \<in> set (fst (create_prepare env this cliOptions preset))"
      by (simp add: fst_create)
    with h show ?thesis by (simp add: create_prepare_reaches_plugins)
  next
    case (Inr st)
    with h show ?thesis by (simp add: create_prepare_git_init)
  qed
  then show "Emit ''creation'' ''git-init'' \<in> set (fst (create env this cliOptions preset))"
    and "Execa ''git'' [''init''] (cr_context this)
            \<in> set (fst (create env this cliOptions preset))"
    by (simp_all add: fst_create)
next
  assume h: "hasGit env \<and> snd (create env this cliOptions preset) = Inr ()"
  then obtain st where st: "snd (create_prepare env this cliOptions preset) = Inr st"
    and hk: "snd (run_hooks (st_afterInvokeCbs st) (st_afterAnyInvokeCbs st)) = Inr ()"
    and fin: "snd (create_finish env this st) = Inr ()"
    by (auto simp: snd_create split: sum.splits)
  from create_prepare_state[OF st] h have "st_shouldInitGit st"
    by (metis prepared.select_convs(2))
  from create_finish_git[OF this fin]
  show "Execa ''git'' [''add'', ''-A''] (cr_context this)
            \<in> set (fst (create env this cliOptions preset))"
    and "Execa ''git'' [''commit'', ''-m'', ''init''] (cr_context this)
            \<in> set (fst (create env this cliOptions preset))"
    by (simp_all add: fst_create st hk)
qed

theorem create_git_init_iff_hasGit_witness:
  "\<not> hasGit example_env_no_git
   \<and> list_all (\<lambda>ev. \<not> is_Execa ev \<and> ev \<noteq> Emit ''creation'' ''git-init'')
        (fst (create example_env_no_git example_creator_ok JUndefined example_preset))
   \<and> hasGit example_env
   \<and> Emit ''creation'' ''plugins-install''
        \<in> set (fst (create example_env example_creator_ok JUndefined example_preset))
   \<and> snd (create example_env example_creator_ok JUndefined example_preset) = Inr ()
   \<and> Emit ''creation'' ''git-init''
        \<in> set (fst (create example_env example_creator_ok JUndefined example_preset))
   \<and> Execa ''git'' [''init''] (cr_context example_creator_ok)
        \<in> set (fst (create example_env example_creator_ok JUndefined example_preset))
   \<and> Execa ''git'' [''add'', ''-A''] (cr_context example_creator_ok)
        \<in> set (fst (create example_env example_creator_ok JUndefined example_preset))
   \<and> Execa ''git'' [''commit'', ''-m'', ''init''] (cr_context example_creator_ok)
        \<in> set (fst (create example_env example_creator_ok JUndefined example_preset))"
proof -
  have nogit: "\<not> hasGit example_env_no_git"
    by (simp add: example_env_no_git_def)
  have ok: "create example_env example_creator_ok JUndefined example_preset =
           (example_prepare_trace @ example_finish_trace True, Inr ())"
    by (rule create_example_ok) (simp add: lookup_prop_def object_prototype_names_def)
  have reach: "hasGit example_env \<and> Emit ''creation'' ''plugins-install''
        \<in> set (fst (create example_env example_creator_ok JUndefined example_preset))"
    by (simp add: ok example_env_fields example_prepare_trace_events)
  have finished: "hasGit example_env
        \<and> snd (create example_env example_creator_ok JUndefined example_preset) = Inr ()"
    by (simp add: ok example_env_fields)
  from create_git_init_iff_hasGit[of example_env_no_git example_creator_ok JUndefined example_preset, THEN conjunct1]
    create_git_init_iff_hasGit[of example_env example_creator_ok JUndefined example_preset, THEN conjunct2, THEN conjunct1]
    create_git_init_iff_hasGit[of example_env example_creator_ok JUndefined example_preset, THEN conjunct2, THEN conjunct2]
    nogit reach finished
  show ?thesis by blast
qed

text \<open>
  C8 as stated fails: with git on the host and the caller's options \<^verbatim>\<open>{ git: false }\<close>
  the run is the one of the default options, \<^verbatim>\<open>git init\<close> included:
  \<^verbatim>\<open>shouldInitGit\<close> takes no parameter and never reads the options.
\<close>

theorem create_ignores_git_option_counterexample:
  "hasGit example_env
   \<and> lookup_prop (JObj [(''git'', JBool False)]) ''git'' = JBool False
   \<and> create example_env example_creator_ok (JObj [(''git'', JBool False)]) example_preset =
       (example_prepare_trace @ example_finish_trace True, Inr ())
   \<and> Execa ''git'' [''init''] ''/work/app'' \<in> set example_prepare_trace"
proof -
  have "create example_env example_creator_ok (JObj [(''git'', JBool False)]) example_preset =
           (example_prepare_trace @ example_finish_trace True, Inr ())"
    by (rule create_example_ok) (simp add: lookup_prop_def object_prototype_names_def)
  then show ?thesis
    by (simp add: example_env_fields example_prepare_trace_events lookup_prop_def)
qed

text \<open>
  C6 (as amended). When the caller supplies no preset, the preset resolved by the
  interview is validated against the preset schema before any file-system mutation:
  nothing before the validation mutates, and an invalid preset (missing or malformed
  \<open>plugins\<close> map) aborts the run with the validation failure as the last event, the
  target directory unmodified. A preset supplied by the caller is used as it is: no
  validation takes place in such a run.
\<close>

theorem create_validates_interactive_preset:
  "(\<not> truthy preset \<and> resolvePreset env (interview_preset env) JUndefined = (tR, Inr p) \<longrightarrow>
      list_all (\<lambda>ev. \<not> mutates ev) ([ClearConsole, Interview] @ tR)
      \<and> (\<not> valid_preset p \<longrightarrow>
            create env this cliOptions preset =
              ([ClearConsole, Interview] @ tR @ [ValidatePreset p], Inl InvalidPreset))
      \<and> (valid_preset p \<longrightarrow>
            (\<exists>rest. fst (create env this cliOptions preset) =
               [ClearConsole, Interview] @ tR @ ValidatePreset p # rest)))
   \<and> (truthy preset \<longrightarrow>
        list_all (\<lambda>ev. \<not> is_ValidatePreset ev) (fst (create env this cliOptions preset)))"
proof (intro conjI impI)
  assume "truthy preset"
  then show "list_all (\<lambda>ev. \<not> is_ValidatePreset ev) (fst (create env this cliOptions preset))"
    by (rule create_no_validation)
next
  assume h: "\<not> truthy preset \<and> resolvePreset env (interview_preset env) JUndefined = (tR, Inr p)"
  have "list_all preset_event (fst (resolvePreset env (interview_preset env) JUndefined))"
    by (rule resolvePreset_events)
  with h have "list_all preset_event tR" by simp
  then have "list_all (\<lambda>ev. \<not> mutates ev) tR"
  proof (rule list_all_mono)
    fix ev assume "preset_event ev" then show "\<not> mutates ev" by (cases ev) simp_all
  qed
  then show "list_all (\<lambda>ev. \<not> mutates ev) ([ClearConsole, Interview] @ tR)"
    by simp
next
  assume h: "\<not> truthy preset \<and> resolvePreset env (interview_preset env) JUndefined = (tR, Inr p)"
    and inv: "\<not> valid_preset p"
  from h obtain K where K: "create_prepare env this cliOptions preset =
      bind_io (promptAndResolvePreset env None) K"
    using create_prepare_interactive by blast
  from h inv have "promptAndResolvePreset env None =
      ([ClearConsole, Interview] @ tR @ [ValidatePreset p], Inl InvalidPreset)"
    using promptAndResolvePreset_interview[of env tR "Inr p"] by simp
  then show "create env this cliOptions preset =
              ([ClearConsole, Interview] @ tR @ [ValidatePreset p], Inl InvalidPreset)"
    by (simp add: create_def K bind_io_Inl)
next
  assume h: "\<not> truthy preset \<and> resolvePreset env (interview_preset env) JUndefined = (tR, Inr p)"
    and v: "valid_preset p"
  from h obtain K where K: "create_prepare env this cliOptions preset =
      bind_io (promptAndResolvePreset env None) K"
    using create_prepare_interactive by blast
  from h v have "promptAndResolvePreset env None =
      ([ClearConsole, Interview] @ tR @ [ValidatePreset p], Inr p)"
    using promptAndResolvePreset_interview[of env tR "Inr p"] by simp
  then have "fst (create env this cliOptions preset) =
      ([ClearConsole, Interview] @ tR @ [ValidatePreset p]) @ fst (K p)
      @ (case snd (K p) of Inl e \<Rightarrow> []
         | Inr st \<Rightarrow> fst (then_io (run_hooks (st_afterInvokeCbs st) (st_afterAnyInvokeCbs st))
                           (create_finish env this st)))"
    by (simp add: create_def K bind_io_Inr fst_bind_io)
  then show "\<exists>rest. fst (create env this cliOptions preset) =
               [ClearConsole, Interview] @ tR @ ValidatePreset p # rest"
    by simp
qed

theorem create_validates_interactive_preset_witness:
  "\<not> truthy JNull
   \<and> resolvePreset example_env_webpack (interview_preset example_env_webpack) JUndefined
       = ([ConsoleLog], Inr JUndefined)
   \<and> \<not> valid_preset JUndefined
   \<and> create example_env_webpack example_creator_ok JUndefined JNull =
       ([ClearConsole, Interview, ConsoleLog, ValidatePreset JUndefined], Inl InvalidPreset)
   \<and> valid_preset (JObj [(''plugins'', JObj [(''plugin-a'', JObj [])])])
   \<and> take 4 (fst (create example_env example_creator_ok JUndefined JNull)) =
       [ClearConsole, Interview, ConsoleLog,
        ValidatePreset (JObj [(''plugins'', JObj [(''plugin-a'', JObj [])])])]
   \<and> truthy example_preset
   \<and> list_all (\<lambda>ev. \<not> is_ValidatePreset ev)
        (fst (create example_env example_creator_ok JUndefined example_preset))"
proof -
  have a: "\<not> truthy JNull \<and>
      resolvePreset example_env_webpack (interview_preset example_env_webpack) JUndefined
       = ([ConsoleLog], Inr JUndefined)"
    by (simp add: resolvePreset_webpack)
  have a': "\<not> valid_preset JUndefined"
    by (simp add: valid_preset_def)
  have b: "\<not> truthy JNull \<and>
      resolvePreset example_env (interview_preset example_env) JUndefined
       = ([ConsoleLog], Inr (JObj [(''plugins'', JObj [(''plugin-a'', JObj [])])]))"
    by (simp add: resolvePreset_mine)
  have b': "valid_preset (JObj [(''plugins'', JObj [(''plugin-a'', JObj [])])])"
    by (simp add: valid_preset_def)
  have c: "truthy example_preset"
    by (simp add: example_preset_def)
  from create_validates_interactive_preset[of JNull example_env_webpack "[ConsoleLog]"
      JUndefined example_creator_ok JUndefined, THEN conjunct1, rule_format, OF a] a'
  have r1: "create example_env_webpack example_creator_ok JUndefined JNull =
       ([ClearConsole, Interview, ConsoleLog, ValidatePreset JUndefined], Inl InvalidPreset)"
    by simp
  from create_validates_interactive_preset[of JNull example_env "[ConsoleLog]"
      "JObj [(''plugins'', JObj [(''plugin-a'', JObj [])])]" example_creator_ok JUndefined,
      THEN conjunct1, rule_format, OF b] b'
  obtain rest where "fst (create example_env example_creator_ok JUndefined JNull) =
       [ClearConsole, Interview] @ [ConsoleLog]
         @ ValidatePreset (JObj [(''plugins'', JObj [(''plugin-a'', JObj [])])]) # rest"
    by blast
  then have r2: "take 4 (fst (create example_env example_creator_ok JUndefined JNull)) =
       [ClearConsole, Interview, ConsoleLog,
        ValidatePreset (JObj [(''plugins'', JObj [(''plugin-a'', JObj [])])])]"
    by simp
  from create_validates_interactive_preset[of example_preset example_env _ _
      example_creator_ok JUndefined, THEN conjunct2, rule_format, OF c]
  have r3: "list_all (\<lambda>ev. \<not> is_ValidatePreset ev)
        (fst (create example_env example_creator_ok JUndefined example_preset))" .
  from a a' b' c r1 r2 r3 show ?thesis by simp
qed

text \<open>
  C6 as stated fails: a supplied preset whose \<open>plugins\<close> is the string \<open>x\<close> is not
  validated; the manifest is written, git is initialized and the run completes.
\<close>

theorem create_supplied_preset_not_validated_counterexample:
  "\<not> valid_preset malformed_preset
   \<and> create example_env example_creator_ok JUndefined malformed_preset =
       ([ClearConsole, LogWithSpinner (MsgCreating ''/work/app''),
         WriteFileTree ''/work/app'' [(''package.json'', Json example_pkg)],
         LogWithSpinner MsgInitGit, Emit ''creation'' ''git-init'',
         Execa ''git'' [''init''] ''/work/app'', StopSpinner, Log MsgInitPlugins, Log MsgBlank,
         Emit ''creation'' ''plugins-install'', Log MsgGenerating,
         Log MsgInstalling, Log MsgBlank] @ example_finish_trace True, Inr ())"
proof -
  let ?st = "example_prepared\<lparr>st_afterInvokeCbs := [Callback 1 None],
                             st_afterAnyInvokeCbs := [Callback 4 None]\<rparr>"
  have k: "Object_keys (JStr ''x'') = Inr [''0'']"
    by (simp add: ordinary_keys_def show_nat_0 is_array_index_0 del: show_nat.simps)
  have prep: "create_prepare example_env example_creator_ok JUndefined malformed_preset =
     ([ClearConsole, LogWithSpinner (MsgCreating ''/work/app''),
         WriteFileTree ''/work/app'' [(''package.json'', Json example_pkg)],
         LogWithSpinner MsgInitGit, Emit ''creation'' ''git-init'',
         Execa ''git'' [''init''] ''/work/app'', StopSpinner, Log MsgInitPlugins, Log MsgBlank,
         Emit ''creation'' ''plugins-install'', Log MsgGenerating,
         Log MsgInstalling, Log MsgBlank], Inr ?st)"
    unfolding create_prepare_def Let_def malformed_preset_def
    by (simp add: io_simps resolvePlugins_malformed k lookup_prop_def
        object_prototype_names_def
        select_packageManager_def shouldInitGit_def run_def split_ws_git_init call_io_def
        example_env_fields example_creator_ok_fields example_pkg_def
        example_prepared_def cloneDeep_below_id
        del: split_ws.simps cloneDeep_below.simps Object_keys.simps)
  have hooks: "run_hooks (st_afterInvokeCbs ?st) (st_afterAnyInvokeCbs ?st) =
      ([LogWithSpinner MsgHooks, HookStart 1, HookEnd 1, HookStart 4, HookEnd 4], Inr ())"
    by (simp add: run_hooks_def io_simps)
  have fin: "create_finish example_env example_creator_ok ?st =
      ([StopSpinner, Log MsgBlank, LogWithSpinner MsgReadme,
        WriteFileTree ''/work/app'' [(''README.md'', Readme example_pkg (JStr ''npm''))],
        Execa ''git'' [''add'', ''-A''] ''/work/app'',
        Execa ''git'' [''commit'', ''-m'', ''init''] ''/work/app'',
        StopSpinner, Log MsgBlank, Log (MsgSuccess ''app''), Log MsgBlank, PrintExitLogs],
       Inr ())"
    unfolding create_finish_def
    by (simp add: io_simps catch_io_Inl catch_io_Inr run_def split_ws_git_add call_io_def
          example_env_fields example_creator_ok_fields example_prepared_def
          del: split_ws.simps)
  have "\<not> valid_preset malformed_preset"
    by (simp add: valid_preset_def malformed_preset_def)
  then show ?thesis
    unfolding create_def prep bind_io_Inr hooks then_io_Inr fin
    by (simp add: example_finish_trace_def)
qed

text \<open>
  C5. The package manager that \<^verbatim>\<open>create\<close> installs with and writes into the README is
  chosen by precedence: the \<^verbatim>\<open>packageManager\<close> of the CLI options if it is present
  (truthy), else the one of the saved configuration if present, else \<open>yarn\<close> if Yarn is
  detected, else \<open>pnpm\<close> if the version-gated PNPM is detected, else \<open>npm\<close>. The
  choice has no effect of its own: a host that differs in the saved configuration and in
  what is detected, and leads to the same choice, gives the very same run.
\<close>

theorem create_packageManager_precedence:
  "let cliPm = lookup_prop (if cliOptions = JUndefined then JObj [] else cliOptions)
                 ''packageManager'';
       chosen = (if truthy cliPm then cliPm
                 else if truthy (saved_packageManager env) then saved_packageManager env
                 else if hasYarn env then JStr ''yarn''
                 else if hasPnpm3OrLater env then JStr ''pnpm''
                 else JStr ''npm'')
   in (\<forall>ev \<in> set (fst (create env this cliOptions preset)).
         (\<forall>d pm. ev = PmInstall d pm \<longrightarrow> pm = chosen)
       \<and> (\<forall>d p pm. ev = WriteFileTree d [(''README.md'', Readme p pm)] \<longrightarrow> pm = chosen))
    \<and> (\<forall>y p s.
          (if truthy cliPm then cliPm
           else if truthy s then s
           else if y then JStr ''yarn''
           else if p then JStr ''pnpm''
           else JStr ''npm'') = chosen
          \<longrightarrow> create (env\<lparr>hasYarn := y, hasPnpm3OrLater := p, saved_packageManager := s\<rparr>)
                this cliOptions preset
              = create env this cliOptions preset)"
proof -
  let ?cliPm = "lookup_prop (if cliOptions = JUndefined then JObj [] else cliOptions)
                 ''packageManager''"
  let ?chosen = "if truthy ?cliPm then ?cliPm
                 else if truthy (saved_packageManager env) then saved_packageManager env
                 else if hasYarn env then JStr ''yarn''
                 else if hasPnpm3OrLater env then JStr ''pnpm''
                 else JStr ''npm''"
  have sel: "select_packageManager env ?cliPm = ?chosen"
    by (rule select_packageManager_precedence)
  have ev: "\<forall>ev \<in> set (fst (create env this cliOptions preset)).
         (\<forall>d pm. ev = PmInstall d pm \<longrightarrow> pm = ?chosen)
       \<and> (\<forall>d p pm. ev = WriteFileTree d [(''README.md'', Readme p pm)] \<longrightarrow> pm = ?chosen)"
    using create_packageManager_events[OF sel, of this preset]
    unfolding list_all_iff .
  have pure: "create (env\<lparr>hasYarn := y, hasPnpm3OrLater := p, saved_packageManager := s\<rparr>)
                this cliOptions preset
              = create env this cliOptions preset"
    if h: "(if truthy ?cliPm then ?cliPm
           else if truthy s then s
           else if y then JStr ''yarn''
           else if p then JStr ''pnpm''
           else JStr ''npm'') = ?chosen" for y p s
  proof (rule create_detect_irrelevant)
    have "select_packageManager
            (env\<lparr>hasYarn := y, hasPnpm3OrLater := p, saved_packageManager := s\<rparr>) ?cliPm
          = (if truthy ?cliPm then ?cliPm
           else if truthy s then s
           else if y then JStr ''yarn''
           else if p then JStr ''pnpm''
           else JStr ''npm'')"
      by (simp add: select_packageManager_precedence)
    with h sel show "select_packageManager
            (env\<lparr>hasYarn := y, hasPnpm3OrLater := p, saved_packageManager := s\<rparr>) ?cliPm
          = select_packageManager env ?cliPm"
      by simp
  qed
  show ?thesis
    unfolding Let_def using ev pure by blast
qed

theorem create_packageManager_precedence_witness:
  "WriteFileTree ''/work/app'' [(''README.md'', Readme example_pkg (JStr ''npm''))]
     \<in> set (fst (create example_env example_creator_ok JUndefined example_preset))
   \<and> (if truthy (lookup_prop (JObj []) ''packageManager'')
       then lookup_prop (JObj []) ''packageManager''
       else if truthy (saved_packageManager example_env) then saved_packageManager example_env
       else if hasYarn example_env then JStr ''yarn''
       else if hasPnpm3OrLater example_env then JStr ''pnpm''
       else JStr ''npm'') = JStr ''npm''
   \<and> create (example_env\<lparr>hasYarn := True, hasPnpm3OrLater := True,
                            saved_packageManager := JStr ''npm''\<rparr>)
         example_creator_ok JUndefined example_preset
       = create example_env example_creator_ok JUndefined example_preset"
proof -
  note c5 = create_packageManager_precedence[of JUndefined example_env example_creator_ok
      example_preset, unfolded Let_def]
  have cli: "lookup_prop (JObj []) ''packageManager'' = JUndefined"
    by (simp add: lookup_prop_def object_prototype_names_def)
  from c5[THEN conjunct1, rule_format, OF create_example_readme, THEN conjunct2, rule_format,
      of "''/work/app''" example_pkg "JStr ''npm''"]
  have ch: "(if truthy (lookup_prop (JObj []) ''packageManager'')
       then lookup_prop (JObj []) ''packageManager''
       else if truthy (saved_packageManager example_env) then saved_packageManager example_env
       else if hasYarn example_env then JStr ''yarn''
       else if hasPnpm3OrLater example_env then JStr ''pnpm''
       else JStr ''npm'') = JStr ''npm''"
    by (simp add: cli example_env_fields)
  from c5[THEN conjunct2, rule_format, of "JStr ''npm''" True True]
  have "create (example_env\<lparr>hasYarn := True, hasPnpm3OrLater := True,
                            saved_packageManager := JStr ''npm''\<rparr>)
         example_creator_ok JUndefined example_preset
       = create example_env example_creator_ok JUndefined example_preset"
    by (simp add: cli example_env_fields)
  with create_example_readme ch show ?thesis by simp
qed

end
